theory Spec2Isabelle
  imports Complex_Main "HOL-Library.Sublist" "HOL-Library.Multiset"
begin

section \<open>Python values\<close>

text \<open>
  A Python \<open>str\<close> is a sequence of Unicode code points, and \<open>len\<close> counts code points:
  a \<open>str\<close> value is a list of code points. Literals of the source that are plain ASCII are written
  with \<open>u\<close>; the Japanese literals are written out as code points.

  Python's \<open>float\<close> values are modelled as exact rationals: sums, quotients and comparisons
  are the mathematical ones. The dictionaries the code reads with \<open>d.get(key, default)\<close> are
  maps (for the provider records) or records whose optional fields are \<open>None\<close> when the key
  is missing.
\<close>

type_synonym str = "nat list"

definition u :: "string \<Rightarrow> str" where
  "u s = map of_char s"

text \<open>
  What the runtime's Unicode database and URL library decide is not part of the
  repository and differs between versions of the runtime; the functions that depend on it
  take it as a parameter: \<open>str_lower\<close> is \<open>str.lower\<close>, \<open>is_space\<close> is the whitespace class of
  \<open>str.split\<close>, \<open>str.strip\<close> and the pattern \<open>\s\<close>, \<open>is_decimal\<close> is the class of the pattern
  \<open>\d\<close>, and \<open>urlparse\<close> gives the scheme and the network location of a URL, or \<open>None\<close>
  where \<open>urllib.parse.urlparse\<close> raises \<open>ValueError\<close>.
\<close>

record runtime =
  str_lower :: "str \<Rightarrow> str"
  is_space :: "nat \<Rightarrow> bool"
  is_decimal :: "nat \<Rightarrow> bool"
  urlparse :: "str \<Rightarrow> (str \<times> str) option"

text \<open>
  The tables on ASCII text, where every version of the database agrees: letters \<open>A\<close> to
  \<open>Z\<close> are lowered, whitespace is tab, line feed, vertical tab, form feed, carriage
  return, the four separators 28 to 31 and space, the decimal digits are \<open>0\<close> to \<open>9\<close>.
  It is used to run the model on ASCII inputs. Its \<open>urlparse\<close> covers URLs of the shape
  \<open>scheme://host/path\<close> with a scheme of letters, and plain words without a colon: the
  scheme is the text before the first colon, the network location follows \<open>//\<close> and ends
  before the next \<open>/\<close>, \<open>?\<close> or \<open>#\<close>.
\<close>

fun ascii_urlparse :: "str \<Rightarrow> str \<Rightarrow> (str \<times> str) option" where
  "ascii_urlparse scheme [] = Some ([], [])"
| "ascii_urlparse scheme (c # cs) =
    (if c = 58
     then Some (scheme,
       if prefix [47, 47] cs then takeWhile (\<lambda>x. x \<noteq> 47 \<and> x \<noteq> 63 \<and> x \<noteq> 35) (drop 2 cs)
       else [])
     else ascii_urlparse (scheme @ [c]) cs)"

definition ascii_runtime :: runtime where
  "ascii_runtime = \<lparr>
     str_lower = map (\<lambda>c. if 65 \<le> c \<and> c \<le> 90 then c + 32 else c),
     is_space = (\<lambda>c. (9 \<le> c \<and> c \<le> 13) \<or> (28 \<le> c \<and> c \<le> 32)),
     is_decimal = (\<lambda>c. 48 \<le> c \<and> c \<le> 57),
     urlparse = ascii_urlparse []\<rparr>"

text \<open>\<open>field.get(key, default)\<close> on an optional field.\<close>

definition get :: "'a option \<Rightarrow> 'a \<Rightarrow> 'a" where
  "get field dflt = (case field of None \<Rightarrow> dflt | Some v \<Rightarrow> v)"

definition dict_get :: "('k \<rightharpoonup> 'v) \<Rightarrow> 'k \<Rightarrow> 'v \<Rightarrow> 'v" where
  "dict_get d k dflt = (case d k of None \<Rightarrow> dflt | Some v \<Rightarrow> v)"

section \<open>Candidate scorer (discovery/error\_finder.py)\<close>

text \<open>
  \<open>ErrorFinder._calculate_stackoverflow_confidence\<close>: the item is the provider's JSON
  record, read through \<open>item.get(key, 0)\<close>. Each \<open>if/elif\<close> chain adds its bonus to
  \<open>confidence\<close>, and the sum is capped at 1.
\<close>

definition calculate_stackoverflow_confidence :: "(string \<rightharpoonup> int) \<Rightarrow> rat" where
  "calculate_stackoverflow_confidence item =
    (let score = dict_get item ''score'' 0;
         view_count = dict_get item ''view_count'' 0;
         answer_count = dict_get item ''answer_count'' 0;
         confidence = 0;
         confidence = confidence +
           (if score > 10 then 3 / 10 else if score > 5 then 2 / 10
            else if score > 0 then 1 / 10 else 0);
         confidence = confidence +
           (if view_count > 1000 then 2 / 10 else if view_count > 500 then 1 / 10 else 0);
         confidence = confidence +
           (if answer_count > 2 then 3 / 10 else if answer_count > 0 then 2 / 10 else 0)
     in min confidence 1)"

text \<open>\<open>ErrorFinder._calculate_reddit_confidence\<close>, on the post's \<open>ups\<close> and \<open>num_comments\<close>.\<close>

definition calculate_reddit_confidence :: "(string \<rightharpoonup> int) \<Rightarrow> rat" where
  "calculate_reddit_confidence post_data =
    (let upvotes = dict_get post_data ''ups'' 0;
         comments = dict_get post_data ''num_comments'' 0;
         confidence = 0;
         confidence = confidence +
           (if upvotes > 50 then 4 / 10 else if upvotes > 20 then 3 / 10
            else if upvotes > 5 then 2 / 10 else 0);
         confidence = confidence +
           (if comments > 20 then 3 / 10 else if comments > 10 then 2 / 10
            else if comments > 5 then 1 / 10 else 0)
     in min confidence 1)"

section \<open>Candidate filter and selector (discovery/error\_finder.py)\<close>

text \<open>
  A candidate is the dictionary the source adapters build: they always set
  \<open>error_message\<close> and \<open>confidence_score\<close>, so both fields are present in a well-typed
  candidate. \<open>source\<close> names the provider; the remaining keys are never read by the core.
\<close>

record candidate =
  error_message :: str
  confidence_score :: rat
  source :: string

text \<open>The selection criteria and the switches of the providers, \<open>None\<close> for a missing key.\<close>

record discovery_config =
  stackoverflow_enabled :: "bool option"
  reddit_enabled :: "bool option"
  google_trends_enabled :: "bool option"
  min_confidence_score :: "rat option"

text \<open>
  What the three source adapters return on this run. They reach the network, and each
  catches its own failures and returns the candidates it has: their results are inputs.
\<close>

record search_results =
  search_stackoverflow :: "candidate list"
  search_reddit :: "candidate list"
  search_google_trends :: "candidate list"

datatype error = ValueError | IndexError

text \<open>Python's \<open>sub in s\<close> on strings: \<open>sub\<close> occurs in \<open>s\<close> as a contiguous block.\<close>

fun str_in :: "str \<Rightarrow> str \<Rightarrow> bool" where
  "str_in sub [] = (sub = [])"
| "str_in sub (c # cs) = (prefix sub (c # cs) \<or> str_in sub cs)"

text \<open>
  \<open>sorted(xs, key=key, reverse=True)\<close> and \<open>xs.sort(key=key, reverse=True)\<close>: the runtime
  reverses the list, sorts it stably in ascending order of the key and reverses it again,
  which keeps the elements of equal key in their original order.
\<close>

definition sort_reverse :: "('a \<Rightarrow> 'k::linorder) \<Rightarrow> 'a list \<Rightarrow> 'a list" where
  "sort_reverse key xs = rev (sort_key key (rev xs))"

text \<open>
  \<open>random.choices(population, weights=weights)[0]\<close> of the standard library, with the
  draw \<open>r\<close> of \<open>random()\<close> as a parameter: the cumulative weights, the checks that raise,
  and the binary search \<open>bisect(cum_weights, r * total, 0, n - 1)\<close>.
\<close>

fun accumulate_from :: "int \<Rightarrow> int list \<Rightarrow> int list" where
  "accumulate_from running [] = []"
| "accumulate_from running (w # ws) = (running + w) # accumulate_from (running + w) ws"

definition accumulate :: "int list \<Rightarrow> int list" where
  "accumulate ws = accumulate_from 0 ws"

function bisect :: "int list \<Rightarrow> rat \<Rightarrow> nat \<Rightarrow> nat \<Rightarrow> nat" where
  "bisect a x lo hi =
    (if lo < hi
     then (let mid = (lo + hi) div 2
           in if x < of_int (a ! mid) then bisect a x lo mid else bisect a x (mid + 1) hi)
     else lo)"
  by pat_completeness auto
termination
  by (relation "measure (\<lambda>(a, x, lo, hi). hi - lo)") auto

definition random_choices :: "'a list \<Rightarrow> int list \<Rightarrow> rat \<Rightarrow> error + 'a" where
  "random_choices population weights r =
    (let n = length population;
         cum_weights = accumulate weights
     in if length cum_weights \<noteq> n then Inl ValueError
        else if cum_weights = [] then Inl IndexError
        else let total_weight = of_int (last cum_weights)
             in if total_weight \<le> 0 then Inl ValueError
                else Inr (population ! bisect cum_weights (r * total_weight) 0 (n - 1)))"

text \<open>\<open>ErrorFinder._filter_candidates\<close>: the loop over the candidates, each \<open>continue\<close> a skip.\<close>

definition exclude_keywords :: "str list" where
  "exclude_keywords = [u ''test'', u ''sample'', u ''example'', u ''dummy'']"

fun filter_candidates :: "runtime \<Rightarrow> discovery_config \<Rightarrow> candidate list \<Rightarrow> candidate list" where
  "filter_candidates rt criteria [] = []"
| "filter_candidates rt criteria (candidate # candidates) =
    (let min_confidence = get (min_confidence_score criteria) (1 / 2);
         error_msg = str_lower rt (error_message candidate)
     in if confidence_score candidate < min_confidence then filter_candidates rt criteria candidates
        else if length error_msg < 10 then filter_candidates rt criteria candidates
        else if list_ex (\<lambda>keyword. str_in keyword error_msg) exclude_keywords
          then filter_candidates rt criteria candidates
        else candidate # filter_candidates rt criteria candidates)"

text \<open>
  \<open>ErrorFinder.find_trending_error\<close>, in the order of the source. First the candidates of
  the enabled providers are gathered.
\<close>

definition gather_candidates :: "discovery_config \<Rightarrow> search_results \<Rightarrow> candidate list" where
  "gather_candidates config found =
    (let all_candidates = [];
         all_candidates =
           (if get (stackoverflow_enabled config) False
            then all_candidates @ search_stackoverflow found else all_candidates);
         all_candidates =
           (if get (reddit_enabled config) False
            then all_candidates @ search_reddit found else all_candidates);
         all_candidates =
           (if get (google_trends_enabled config) False
            then all_candidates @ search_google_trends found else all_candidates)
     in all_candidates)"

text \<open>
  The duplicate check against the processing history. The article manager is optional; it
  is an object without \<open>__bool__\<close> or \<open>__len__\<close>, so it is true whenever it is given. What
  the core uses of it is the predicate \<open>is_error_already_processed\<close>.
\<close>

definition unprocessed_candidates :: "(str \<Rightarrow> bool) option \<Rightarrow> candidate list \<Rightarrow> candidate list" where
  "unprocessed_candidates article_manager filtered_candidates =
    (case article_manager of
       None \<Rightarrow> filtered_candidates
     | Some is_error_already_processed \<Rightarrow>
         filter (\<lambda>candidate. \<not> is_error_already_processed (error_message candidate))
           filtered_candidates)"

text \<open>The selection: the sort, the window of the best candidates and their weights.\<close>

definition top_candidates :: "candidate list \<Rightarrow> candidate list" where
  "top_candidates filtered_candidates =
    (let sorted_candidates = sort_reverse confidence_score filtered_candidates;
         top_count = max 3 (length sorted_candidates div 3)
     in take top_count sorted_candidates)"

definition selection_weights :: "candidate list \<Rightarrow> int list" where
  "selection_weights candidates = map (\<lambda>i. max 1 (4 - int i)) [0..<length candidates]"

definition select_candidate :: "rat \<Rightarrow> candidate list \<Rightarrow> error + candidate" where
  "select_candidate r filtered_candidates =
    (let window = top_candidates filtered_candidates;
         weights = selection_weights window
     in random_choices window weights r)"

definition find_trending_error ::
  "runtime \<Rightarrow> discovery_config \<Rightarrow> search_results \<Rightarrow> (str \<Rightarrow> bool) option \<Rightarrow> rat
    \<Rightarrow> error + candidate option" where
  "find_trending_error rt config found article_manager r =
    (let all_candidates = gather_candidates config found
     in if all_candidates = [] then Inr None
        else let filtered_candidates = filter_candidates rt config all_candidates
          in if filtered_candidates = [] then Inr None
             else let filtered_candidates = unprocessed_candidates article_manager filtered_candidates
               in if filtered_candidates = [] then Inr None
                  else (case select_candidate r filtered_candidates of
                          Inl e \<Rightarrow> Inl e
                        | Inr best_candidate \<Rightarrow> Inr (Some best_candidate)))"

section \<open>Solution aggregator (collection/info\_collector.py)\<close>

text \<open>
  A solution fragment and a source citation, as the collectors build them. The aggregator
  reads \<open>reliability\<close> and \<open>url\<close> through \<open>get\<close> with a default, so these two may be missing.
\<close>

record solution =
  description :: str
  steps :: str
  reliability :: "rat option"
  source_url :: str
  source_title :: str

record citation =
  cite_title :: str
  url :: "str option"
  cite_type :: string
  cite_reliability :: rat

record collection_summary =
  total_solutions :: nat
  total_sources :: nat
  collection_time :: rat
  reliability_scores :: "rat list"
  avg_reliability :: rat

record integrated_info =
  info_error_message :: str
  info_error_candidate :: candidate
  info_solutions :: "solution list"
  info_sources :: "citation list"
  info_collection_summary :: collection_summary

text \<open>The loop that keeps the first source of each non-empty URL, with its set \<open>seen_urls\<close>.\<close>

fun unique_sources_loop :: "str set \<Rightarrow> citation list \<Rightarrow> citation list" where
  "unique_sources_loop seen_urls [] = []"
| "unique_sources_loop seen_urls (src # rest) =
    (let the_url = get (url src) []
     in if the_url \<noteq> [] \<and> the_url \<notin> seen_urls
        then src # unique_sources_loop (insert the_url seen_urls) rest
        else unique_sources_loop seen_urls rest)"

text \<open>
  \<open>InfoCollector._integrate_information\<close>. \<open>solutions.sort(...)\<close> sorts the list object the
  caller passed, in place: the function returns the bundle together with the content of
  the caller's \<open>solutions\<close> list after the call. The candidate and the \<open>sources\<close> list are
  only read. \<open>now\<close> is the reading of the clock, \<open>time.time()\<close>.
\<close>

definition integrate_information ::
  "rat \<Rightarrow> candidate \<Rightarrow> solution list \<Rightarrow> citation list \<Rightarrow> integrated_info \<times> solution list" where
  "integrate_information now error_candidate solutions sources =
    (let solutions = sort_reverse (\<lambda>x. get (reliability x) 0) solutions;
         unique_sources = unique_sources_loop {} sources;
         integrated_info = \<lparr>
           info_error_message = error_message error_candidate,
           info_error_candidate = error_candidate,
           info_solutions = take 10 solutions,
           info_sources = take 15 unique_sources,
           info_collection_summary = \<lparr>
             total_solutions = length solutions,
             total_sources = length unique_sources,
             collection_time = now,
             reliability_scores = map (\<lambda>s. get (reliability s) 0) solutions,
             avg_reliability =
               (if solutions \<noteq> []
                then sum_list (map (\<lambda>s. get (reliability s) 0) solutions)
                       / of_nat (length solutions)
                else 0)\<rparr>\<rparr>
     in (integrated_info, solutions))"

section \<open>Article quality gate (publication/quality\_checker.py)\<close>

subsection \<open>String operations of the runtime\<close>

text \<open>
  \<open>s.count(sub)\<close>: the number of non-overlapping occurrences of \<open>sub\<close> in \<open>s\<close>, found from
  left to right; the empty string occurs \<open>len(s) + 1\<close> times.
\<close>

fun str_count_from :: "str \<Rightarrow> str \<Rightarrow> nat" where
  "str_count_from sub [] = 0"
| "str_count_from sub (c # cs) =
    (if prefix sub (c # cs) then 1 + str_count_from sub (drop (length sub - 1) cs)
     else str_count_from sub cs)"

definition str_count :: "str \<Rightarrow> str \<Rightarrow> nat" where
  "str_count s sub = (if sub = [] then length s + 1 else str_count_from sub s)"

text \<open>\<open>s.split()\<close>: the maximal runs of characters that are not whitespace.\<close>

fun str_split_from :: "runtime \<Rightarrow> str \<Rightarrow> str \<Rightarrow> str list" where
  "str_split_from rt word [] = (if word = [] then [] else [word])"
| "str_split_from rt word (c # cs) =
    (if is_space rt c
     then (if word = [] then str_split_from rt [] cs else word # str_split_from rt [] cs)
     else str_split_from rt (word @ [c]) cs)"

definition str_split :: "runtime \<Rightarrow> str \<Rightarrow> str list" where
  "str_split rt s = str_split_from rt [] s"

text \<open>\<open>s.strip()\<close>: without the whitespace at both ends.\<close>

definition str_strip :: "runtime \<Rightarrow> str \<Rightarrow> str" where
  "str_strip rt s = rev (dropWhile (is_space rt) (rev (dropWhile (is_space rt) s)))"

text \<open>
  \<open>s.split(sep)\<close> for a separator that is not empty: the pieces between the
  non-overlapping occurrences of \<open>sep\<close>, found from left to right.
\<close>

fun str_split_sep :: "str \<Rightarrow> str \<Rightarrow> str \<Rightarrow> str list" where
  "str_split_sep sep piece [] = [piece]"
| "str_split_sep sep piece (c # cs) =
    (if prefix sep (c # cs) then piece # str_split_sep sep [] (drop (length sep - 1) cs)
     else str_split_sep sep (piece @ [c]) cs)"

text \<open>
  \<open>round(x, 1)\<close>: to the nearest multiple of one tenth, a tie to the one with the even
  last digit.
\<close>

definition round_half_even :: "rat \<Rightarrow> int" where
  "round_half_even y =
    (let f = \<lfloor>y\<rfloor>; d = y - of_int f
     in if d < 1 / 2 then f else if d > 1 / 2 then f + 1 else if even f then f else f + 1)"

definition round1 :: "rat \<Rightarrow> rat" where
  "round1 x = of_int (round_half_even (x * 10)) / 10"

subsection \<open>The regular expressions of the checks\<close>

text \<open>
  \<open>len(re.findall(pattern, content, re.MULTILINE))\<close> for a pattern \<open>^...\<close> whose matches
  stay inside one line: the number of line starts (the start of the text and the
  positions after a line feed) at which the rest of the pattern matches. \<open>here\<close> decides
  whether it matches at the start of the given remainder.
\<close>

fun count_line_starts :: "(str \<Rightarrow> bool) \<Rightarrow> bool \<Rightarrow> str \<Rightarrow> nat" where
  "count_line_starts here at_start [] = 0"
| "count_line_starts here at_start (c # cs) =
    (if at_start \<and> here (c # cs) then 1 else 0) + count_line_starts here (c = 10) cs"

text \<open>
  The list pattern \<open>^[-*+] |^\d+\. \<close>: a hyphen, an asterisk or a plus sign and a space, or
  one or more decimal digits, a full stop and a space.
\<close>

definition list_item_here :: "runtime \<Rightarrow> str \<Rightarrow> bool" where
  "list_item_here rt s =
    ((case s of a # b # _ \<Rightarrow> (a = 45 \<or> a = 42 \<or> a = 43) \<and> b = 32 | _ \<Rightarrow> False) \<or>
     list_ex (\<lambda>k. list_all (is_decimal rt) (take k s) \<and> prefix [46, 32] (drop k s))
       [1..<Suc (length s)])"

text \<open>
  \<open>re.split(r'[...]', content)\<close> for a class of single characters: the pieces between
  the separators, one more than there are separators.
\<close>

fun re_split_chars :: "(nat \<Rightarrow> bool) \<Rightarrow> str \<Rightarrow> str \<Rightarrow> str list" where
  "re_split_chars sep piece [] = [piece]"
| "re_split_chars sep piece (c # cs) =
    (if sep c then piece # re_split_chars sep [] cs
     else re_split_chars sep (piece @ [c]) cs)"

text \<open>
  \<open>re.search(tech_term + '[(\(].*?[)\)]', content)\<close>, the first parenthesis of each class
  being the full-width one (code points 65288 and 65289): the term, an opening
  parenthesis right after it, and a closing parenthesis later on the same line.
\<close>

definition explained_here :: "str \<Rightarrow> str \<Rightarrow> bool" where
  "explained_here tech_term s =
    (prefix tech_term s \<and>
     (case drop (length tech_term) s of
        [] \<Rightarrow> False
      | opening # rest \<Rightarrow>
          (opening = 65288 \<or> opening = 40) \<and>
          list_ex (\<lambda>c. c = 65289 \<or> c = 41) (takeWhile (\<lambda>c. c \<noteq> 10) rest)))"

fun re_search_explained :: "str \<Rightarrow> str \<Rightarrow> bool" where
  "re_search_explained tech_term [] = False"
| "re_search_explained tech_term (c # cs) =
    (explained_here tech_term (c # cs) \<or> re_search_explained tech_term cs)"

text \<open>
  \<open>len(re.findall(r'\n\s*\n', content))\<close>: at a line feed, the longest run of whitespace
  that is followed by a line feed is taken (the run may itself hold line feeds), and the
  search goes on after that line feed.
\<close>

function count_blank_lines :: "runtime \<Rightarrow> str \<Rightarrow> nat" where
  "count_blank_lines rt [] = 0"
| "count_blank_lines rt (c # cs) =
    (if c = 10
     then (case filter (\<lambda>k. k < length cs \<and> cs ! k = 10)
                  (rev [0..<Suc (length (takeWhile (is_space rt) cs))]) of
             [] \<Rightarrow> count_blank_lines rt cs
           | k # _ \<Rightarrow> 1 + count_blank_lines rt (drop (Suc k) cs))
     else count_blank_lines rt cs)"
  by pat_completeness auto
termination
  by (relation "measure (\<lambda>(rt, s). length s)") auto

text \<open>
  \<open>re.findall(r'<img[^>]*>', html_content)\<close>: from each \<open><img\<close> to the next \<open>>\<close>.
\<close>

function img_tags :: "str \<Rightarrow> str list" where
  "img_tags [] = []"
| "img_tags (c # cs) =
    (if prefix [60, 105, 109, 103] (c # cs)
     then (let attrs = takeWhile (\<lambda>x. x \<noteq> 62) (drop 3 cs);
               closing = dropWhile (\<lambda>x. x \<noteq> 62) (drop 3 cs)
           in if closing = [] then img_tags cs
              else ([60, 105, 109, 103] @ attrs @ [62]) # img_tags (tl closing))
     else img_tags cs)"
  by pat_completeness auto
termination
proof (relation "measure length")
  fix c cs attrs closing
  assume "closing = dropWhile (\<lambda>x. x \<noteq> 62) (drop 3 cs)"
  then have "length closing \<le> length cs"
    using length_dropWhile_le [of "\<lambda>x. x \<noteq> 62" "drop 3 cs"] by simp
  then show "(tl closing, c # cs) \<in> measure length" by simp
qed auto

text \<open>
  \<open>re.findall(r'\[([^\]]+)\]\(([^)]+)\)', content)\<close>: the Markdown links, each as the pair
  of its text and its URL.
\<close>

function markdown_links :: "str \<Rightarrow> (str \<times> str) list" where
  "markdown_links [] = []"
| "markdown_links (c # cs) =
    (if c = 91
     then (let link_text = takeWhile (\<lambda>x. x \<noteq> 93) cs;
               after_text = dropWhile (\<lambda>x. x \<noteq> 93) cs;
               link_url = takeWhile (\<lambda>x. x \<noteq> 41) (drop 2 after_text);
               closing = dropWhile (\<lambda>x. x \<noteq> 41) (drop 2 after_text)
           in if link_text \<noteq> [] \<and> prefix [93, 40] after_text \<and> link_url \<noteq> [] \<and> closing \<noteq> []
              then (link_text, link_url) # markdown_links (tl closing)
              else markdown_links cs)
     else markdown_links cs)"
  by pat_completeness auto
termination
proof (relation "measure length")
  fix c cs link_text after_text link_url closing
  assume "after_text = dropWhile (\<lambda>x. x \<noteq> 93) cs"
    and "closing = dropWhile (\<lambda>x. x \<noteq> 41) (drop 2 after_text)"
  then have "length closing \<le> length cs"
    using length_dropWhile_le [of "\<lambda>x. x \<noteq> 93" cs]
      length_dropWhile_le [of "\<lambda>x. x \<noteq> 41" "drop 2 after_text"]
    by simp
  then show "(tl closing, c # cs) \<in> measure length" by simp
qed auto

text \<open>The slug pattern \<open>^[a-z0-9\-]+$\<close> of \<open>re.match\<close>; \<open>$\<close> also matches before a last line feed.\<close>

definition slug_matches :: "str \<Rightarrow> bool" where
  "slug_matches slug =
    (let body = (if slug \<noteq> [] \<and> last slug = 10 then butlast slug else slug)
     in body \<noteq> [] \<and>
        list_all (\<lambda>c. (97 \<le> c \<and> c \<le> 122) \<or> (48 \<le> c \<and> c \<le> 57) \<or> c = 45) body)"

subsection \<open>Articles, issues and reports\<close>

text \<open>
  The article dictionary, read with \<open>article_data.get(key, default)\<close>: a missing key reads
  as the empty string, the empty list or 0, so a field holds that default when the key is
  missing. \<open>article_error_message\<close> is the key \<open>error_message\<close>, the driving keyword.
\<close>

record article =
  title :: str
  content :: str
  excerpt :: str
  slug :: str
  tags :: "str list"
  word_count :: int
  article_error_message :: str
  html_content :: str

text \<open>The switches and thresholds of the configuration, \<open>None\<close> for a missing key.\<close>

record quality_config =
  duplicate_detection :: "bool option"
  link_validation :: "bool option"
  min_seo_score :: "rat option"
  min_word_count :: "int option"
  max_word_count :: "int option"

datatype severity = Low | Medium | High

text \<open>
  The messages of the issues. Each constructor stands for one message literal of the
  source, in the order in which the source has them; its arguments are the values the
  literal interpolates.
\<close>

datatype message =
    WordCountTooLow int int
  | WordCountTooHigh int int
  | TitleMissing
  | TitleTooShort
  | TitleTooLong
  | ContentMissing
  | ExcerptMissing
  | ExcerptLengthUnsuitable
  | KeywordNotInTitle
  | KeywordNotInExcerpt
  | KeywordDensityTooLow rat
  | KeywordDensityTooHigh rat
  | KeywordScarce
  | SlugFormatUnsuitable
  | TagsTooFew
  | TagsMissing
  | ImagesWithoutAlt nat
  | H1Missing
  | H1Multiple nat
  | H2TooFew
  | H2Missing
  | ListItemsTooFew
  | ListMissing
  | ParagraphsTooLong nat
  | SentencesTooLong
  | KanjiDensityUnsuitable rat
  | ConnectivesTooFew
  | BlankLinesTooFew
  | TitleRepeatsPhrase
  | InvalidUrlFormat str
  | QualityCheckError

record issue =
  message :: message
  severity :: severity

text \<open>
  The result of a sub-scorer; \<open>check_passed\<close> is \<open>None\<close> where the dictionary has no key
  \<open>passed\<close>. The duplicate and link checks return a verdict with its issues.
\<close>

record check_result =
  score :: int
  max_score :: int
  check_issues :: "issue list"
  check_passed :: "bool option"

record verdict =
  verdict_passed :: bool
  verdict_issues :: "issue list"

record detailed_results =
  basic_quality :: check_result
  seo_quality :: check_result
  content_structure :: check_result
  readability :: check_result
  duplicate_check :: "verdict option"
  link_validation_result :: "verdict option"

record issue_summary =
  total_issues :: nat
  high_severity_issues :: nat
  medium_severity_issues :: nat
  low_severity_issues :: nat

text \<open>
  The quality report. The report of the exception handler has neither detailed results
  nor a summary.
\<close>

record quality_report =
  passed :: bool
  overall_score :: rat
  seo_score :: rat
  readability_score :: rat
  issues :: "issue list"
  detailed :: "detailed_results option"
  summary :: "issue_summary option"

subsection \<open>The sub-scorers\<close>

text \<open>
  Each sub-scorer runs its checks in the order of the source; a check adds to \<open>score\<close> or
  appends to \<open>issues\<close>, and both are passed from check to check.

  \<open>QualityChecker._check_basic_quality\<close>.
\<close>

definition check_basic_quality :: "quality_config \<Rightarrow> article \<Rightarrow> check_result" where
  "check_basic_quality thresholds article_data =
    (let score = (0::int);
         max_score = (100::int);
         issues = [];
         word_count = word_count article_data;
         min_words = get (min_word_count thresholds) 2000;
         max_words = get (max_word_count thresholds) 8000;
         (score, issues) =
           (if word_count < min_words
            then (score, issues @ [\<lparr>message = WordCountTooLow word_count min_words, severity = High\<rparr>])
            else if word_count > max_words
            then (score, issues @ [\<lparr>message = WordCountTooHigh word_count max_words, severity = Medium\<rparr>])
            else (score + 30, issues));
         title = title article_data;
         (score, issues) =
           (if title = [] then (score, issues @ [\<lparr>message = TitleMissing, severity = High\<rparr>])
            else if length title < 20
            then (score, issues @ [\<lparr>message = TitleTooShort, severity = Medium\<rparr>])
            else if length title > 70
            then (score, issues @ [\<lparr>message = TitleTooLong, severity = Medium\<rparr>])
            else (score + 25, issues));
         content = content article_data;
         (score, issues) =
           (if content = [] then (score, issues @ [\<lparr>message = ContentMissing, severity = High\<rparr>])
            else (score + 20, issues));
         excerpt = excerpt article_data;
         (score, issues) =
           (if excerpt = [] then (score, issues @ [\<lparr>message = ExcerptMissing, severity = Medium\<rparr>])
            else if length excerpt < 100 \<or> length excerpt > 160
            then (score, issues @ [\<lparr>message = ExcerptLengthUnsuitable, severity = Low\<rparr>])
            else (score + 25, issues))
     in \<lparr>score = score, max_score = max_score, check_issues = issues,
          check_passed = Some (score \<ge> 70)\<rparr>)"

text \<open>
  \<open>QualityChecker._check_seo_quality\<close> runs six checks one after the other. Each is a step
  on the pair of score and issues; \<open>keyword\<close> is the variable \<open>error_message\<close> of the source.
  The first three run under \<open>if error_message:\<close>: the keyword in the title, the keyword in
  the excerpt, and the keyword density (the block under \<open>if content:\<close>).
\<close>

definition keyword_title_check ::
  "runtime \<Rightarrow> article \<Rightarrow> int \<times> issue list \<Rightarrow> int \<times> issue list" where
  "keyword_title_check rt article_data acc =
    (let (score, issues) = acc;
         title = title article_data;
         keyword = article_error_message article_data
     in if str_in (str_lower rt keyword) (str_lower rt title) then (score + 20, issues)
        else (score, issues @ [\<lparr>message = KeywordNotInTitle, severity = High\<rparr>]))"

definition keyword_excerpt_check ::
  "runtime \<Rightarrow> article \<Rightarrow> int \<times> issue list \<Rightarrow> int \<times> issue list" where
  "keyword_excerpt_check rt article_data acc =
    (let (score, issues) = acc;
         excerpt = excerpt article_data;
         keyword = article_error_message article_data
     in if str_in (str_lower rt keyword) (str_lower rt excerpt) then (score + 15, issues)
        else (score, issues @ [\<lparr>message = KeywordNotInExcerpt, severity = Medium\<rparr>]))"

definition keyword_density_check ::
  "runtime \<Rightarrow> article \<Rightarrow> int \<times> issue list \<Rightarrow> int \<times> issue list" where
  "keyword_density_check rt article_data acc =
    (let (score, issues) = acc;
         content = content article_data;
         keyword = article_error_message article_data
     in if content \<noteq> []
        then (let keyword_count = str_count (str_lower rt content) (str_lower rt keyword);
                  content_words = length (str_split rt content)
              in if content_words > 0
                 then (let keyword_density = of_nat keyword_count / of_nat content_words * 100
                       in if 1 \<le> keyword_density \<and> keyword_density \<le> 3 then (score + 25, issues)
                          else if 1 / 2 \<le> keyword_density \<and> keyword_density < 1
                          then (score + 15, issues @
                            [\<lparr>message = KeywordDensityTooLow keyword_density, severity = Low\<rparr>])
                          else if keyword_density > 3
                          then (score, issues @
                            [\<lparr>message = KeywordDensityTooHigh keyword_density, severity = Medium\<rparr>])
                          else (score, issues @ [\<lparr>message = KeywordScarce, severity = Medium\<rparr>]))
                 else (score, issues))
        else (score, issues))"

text \<open>The slug, the tags, and the \<open>alt\<close> texts of the images of the HTML content.\<close>

definition slug_check :: "article \<Rightarrow> int \<times> issue list \<Rightarrow> int \<times> issue list" where
  "slug_check article_data acc =
    (let (score, issues) = acc;
         slug = slug article_data
     in if slug \<noteq> []
        then (if slug_matches slug then (score + 10, issues)
              else (score, issues @ [\<lparr>message = SlugFormatUnsuitable, severity = Low\<rparr>]))
        else (score, issues))"

definition tags_check :: "article \<Rightarrow> int \<times> issue list \<Rightarrow> int \<times> issue list" where
  "tags_check article_data acc =
    (let (score, issues) = acc;
         tags = tags article_data
     in if length tags \<ge> 3 then (score + 15, issues)
        else if length tags \<ge> 1
        then (score + 10, issues @ [\<lparr>message = TagsTooFew, severity = Low\<rparr>])
        else (score, issues @ [\<lparr>message = TagsMissing, severity = Medium\<rparr>]))"

definition image_alt_check :: "article \<Rightarrow> int \<times> issue list \<Rightarrow> int \<times> issue list" where
  "image_alt_check article_data acc =
    (let (score, issues) = acc;
         html_content = html_content article_data
     in if html_content \<noteq> []
        then (let img_without_alt =
                    filter (\<lambda>img. \<not> str_in (u ''alt='') img) (img_tags html_content)
              in if img_without_alt \<noteq> []
                 then (score, issues @
                   [\<lparr>message = ImagesWithoutAlt (length img_without_alt), severity = Medium\<rparr>])
                 else (score + 15, issues))
        else (score, issues))"

definition check_seo_quality :: "runtime \<Rightarrow> article \<Rightarrow> check_result" where
  "check_seo_quality rt article_data =
    (let acc = (0::int, []);
         max_score = (100::int);
         keyword = article_error_message article_data;
         acc = (if keyword \<noteq> []
                then keyword_density_check rt article_data
                       (keyword_excerpt_check rt article_data
                         (keyword_title_check rt article_data acc))
                else acc);
         acc = slug_check article_data acc;
         acc = tags_check article_data acc;
         acc = image_alt_check article_data acc;
         (score, issues) = acc
     in \<lparr>score = score, max_score = max_score, check_issues = issues,
          check_passed = Some (score \<ge> 60)\<rparr>)"

text \<open>\<open>QualityChecker._check_content_structure\<close>.\<close>

definition check_content_structure :: "runtime \<Rightarrow> article \<Rightarrow> check_result" where
  "check_content_structure rt article_data =
    (let score = (0::int);
         max_score = (100::int);
         issues = [];
         content = content article_data;
         h1_count = count_line_starts (prefix (u ''# '')) True content;
         h2_count = count_line_starts (prefix (u ''## '')) True content;
         h3_count = count_line_starts (prefix (u ''### '')) True content;
         (score, issues) =
           (if h1_count = 1 then (score + 20, issues)
            else if h1_count = 0 then (score, issues @ [\<lparr>message = H1Missing, severity = High\<rparr>])
            else (score, issues @ [\<lparr>message = H1Multiple h1_count, severity = Medium\<rparr>]));
         (score, issues) =
           (if h2_count \<ge> 3 then (score + 25, issues)
            else if h2_count \<ge> 1 then (score + 15, issues @ [\<lparr>message = H2TooFew, severity = Low\<rparr>])
            else (score, issues @ [\<lparr>message = H2Missing, severity = Medium\<rparr>]));
         score = (if h3_count \<ge> 2 then score + 15 else if h3_count \<ge> 1 then score + 10 else score);
         list_count = count_line_starts (list_item_here rt) True content;
         (score, issues) =
           (if list_count \<ge> 3 then (score + 20, issues)
            else if list_count \<ge> 1
            then (score + 10, issues @ [\<lparr>message = ListItemsTooFew, severity = Low\<rparr>])
            else (score, issues @ [\<lparr>message = ListMissing, severity = Low\<rparr>]));
         code_blocks = str_count content (u ''```'');
         score = (if code_blocks \<ge> 2 then score + 10 else score);
         paragraphs = str_split_sep [10, 10] [] content;
         long_paragraphs = filter (\<lambda>p. length p > 500) paragraphs;
         (score, issues) =
           (if long_paragraphs \<noteq> []
            then (score, issues @
              [\<lparr>message = ParagraphsTooLong (length long_paragraphs), severity = Low\<rparr>])
            else (score + 10, issues))
     in \<lparr>score = score, max_score = max_score, check_issues = issues,
          check_passed = Some (score \<ge> 60)\<rparr>)"

text \<open>
  \<open>QualityChecker._check_readability\<close>. The sentence separators are the ideographic full
  stop and the full-width exclamation and question marks; the ideographs counted are the
  code points from 4E00 to 9FAF; the seven connectives are the Japanese words of the
  source, written as their code points.
\<close>

definition technical_terms :: "str list" where
  "technical_terms = [u ''API'', u ''SQL'', u ''HTTP'', u ''URL'', u ''OS'', u ''CPU'', u ''RAM'']"

definition connectives :: "str list" where
  "connectives =
    [[12375, 12363, 12375], [12383, 12384, 12375], [12414, 12383], [12373, 12425, 12395],
     [12381, 12398, 12383, 12417], [12388, 12414, 12426], [12394, 12362]]"

definition check_readability :: "runtime \<Rightarrow> article \<Rightarrow> check_result" where
  "check_readability rt article_data =
    (let score = (0::int);
         max_score = (100::int);
         issues = [];
         content = content article_data
     in if content = []
        then \<lparr>score = 0, max_score = max_score,
               check_issues = [\<lparr>message = ContentMissing, severity = High\<rparr>],
               check_passed = None\<rparr>
        else
         (let sentences = re_split_chars (\<lambda>c. c = 12290 \<or> c = 65281 \<or> c = 65311) [] content;
              long_sentences = filter (\<lambda>s. length (str_strip rt s) > 100) sentences;
              (score, issues) =
                (if (of_nat (length long_sentences) :: rat) / of_nat (length sentences) < 2 / 10
                 then (score + 25, issues)
                 else (score, issues @ [\<lparr>message = SentencesTooLong, severity = Medium\<rparr>]));
              kanji_count = length (filter (\<lambda>c. 19968 \<le> c \<and> c \<le> 40879) content);
              total_chars = length (filter (\<lambda>c. \<not> is_space rt c) content);
              (score, issues) =
                (if total_chars > 0
                 then (let kanji_density = (of_nat kanji_count :: rat) / of_nat total_chars
                       in if 2 / 10 \<le> kanji_density \<and> kanji_density \<le> 4 / 10 then (score + 25, issues)
                          else (score, issues @
                            [\<lparr>message = KanjiDensityUnsuitable kanji_density, severity = Low\<rparr>]))
                 else (score, issues));
              explained_terms =
                length (filter (\<lambda>tech_term. str_in tech_term content \<and>
                                  re_search_explained tech_term content) technical_terms);
              score = (if explained_terms > 0 then score + 15 else score);
              connective_count = sum_list (map (\<lambda>conn. str_count content conn) connectives);
              (score, issues) =
                (if connective_count \<ge> 3 then (score + 15, issues)
                 else if connective_count \<ge> 1 then (score + 10, issues)
                 else (score, issues @ [\<lparr>message = ConnectivesTooFew, severity = Low\<rparr>]));
              empty_lines = count_blank_lines rt content;
              (score, issues) =
                (if empty_lines \<ge> 5 then (score + 20, issues)
                 else if empty_lines \<ge> 2 then (score + 15, issues)
                 else (score, issues @ [\<lparr>message = BlankLinesTooFew, severity = Low\<rparr>]))
          in \<lparr>score = score, max_score = max_score, check_issues = issues,
               check_passed = Some (score \<ge> 60)\<rparr>))"

text \<open>
  \<open>QualityChecker._check_duplicates\<close>: the title holds the four-character Japanese phrase
  of the source more than once.
\<close>

definition check_duplicates :: "article \<Rightarrow> verdict" where
  "check_duplicates article_data =
    (let issues = [];
         title = title article_data;
         issues =
           (if str_count title [35299, 27770, 26041, 27861] > 1
            then issues @ [\<lparr>message = TitleRepeatsPhrase, severity = Low\<rparr>] else issues)
     in \<lparr>verdict_passed = (length issues = 0), verdict_issues = issues\<rparr>)"

text \<open>
  \<open>QualityChecker._check_links\<close>: every Markdown link is parsed; a URL without a scheme or
  without a network location is an issue. The result is \<open>None\<close> when \<open>urlparse\<close> raises.
\<close>

fun check_links_loop :: "runtime \<Rightarrow> issue list \<Rightarrow> (str \<times> str) list \<Rightarrow> issue list option" where
  "check_links_loop rt so_far [] = Some so_far"
| "check_links_loop rt so_far ((link_text, link_url) # links) =
    (case urlparse rt link_url of
       None \<Rightarrow> None
     | Some (scheme, netloc) \<Rightarrow>
         (if scheme = [] \<or> netloc = []
          then check_links_loop rt
                 (so_far @ [\<lparr>message = InvalidUrlFormat link_url, severity = Medium\<rparr>]) links
          else check_links_loop rt so_far links))"

definition check_links :: "runtime \<Rightarrow> article \<Rightarrow> verdict option" where
  "check_links rt article_data =
    (let content = content article_data;
         links = markdown_links content
     in case check_links_loop rt [] links of
          None \<Rightarrow> None
        | Some found \<Rightarrow> Some \<lparr>verdict_passed = (length found = 0), verdict_issues = found\<rparr>)"

subsection \<open>The gate\<close>

text \<open>
  \<open>QualityChecker.check_quality\<close>. The body runs under \<open>try\<close>; the one call that can
  raise on a well-typed article is \<open>urlparse\<close> in the link check, and the handler then
  returns the report \<open>error_report\<close>.
\<close>

definition error_report :: quality_report where
  "error_report = \<lparr>passed = False, overall_score = 0, seo_score = 0, readability_score = 0,
     issues = [\<lparr>message = QualityCheckError, severity = High\<rparr>],
     detailed = None, summary = None\<rparr>"

definition check_quality :: "runtime \<Rightarrow> quality_config \<Rightarrow> article \<Rightarrow> quality_report" where
  "check_quality rt config article_data =
    (let issues = [];
         total_score = (0::int);
         max_score = (0::int);
         basic_result = check_basic_quality config article_data;
         total_score = total_score + score basic_result;
         max_score = max_score + check_result.max_score basic_result;
         issues = issues @ check_issues basic_result;
         seo_result = check_seo_quality rt article_data;
         total_score = total_score + score seo_result;
         max_score = max_score + check_result.max_score seo_result;
         issues = issues @ check_issues seo_result;
         structure_result = check_content_structure rt article_data;
         total_score = total_score + score structure_result;
         max_score = max_score + check_result.max_score structure_result;
         issues = issues @ check_issues structure_result;
         readability_result = check_readability rt article_data;
         total_score = total_score + score readability_result;
         max_score = max_score + check_result.max_score readability_result;
         issues = issues @ check_issues readability_result;
         duplicate_result =
           (if get (duplicate_detection config) False then Some (check_duplicates article_data)
            else None);
         issues =
           (case duplicate_result of
              None \<Rightarrow> issues
            | Some r \<Rightarrow> if \<not> verdict_passed r then issues @ verdict_issues r else issues)
     in case (if get (link_validation config) False
              then map_option Some (check_links rt article_data) else Some None) of
          None \<Rightarrow> error_report
        | Some link_result \<Rightarrow>
           (let issues =
                  (case link_result of
                     None \<Rightarrow> issues
                   | Some r \<Rightarrow> if \<not> verdict_passed r then issues @ verdict_issues r else issues);
                overall_score =
                  (if max_score > 0 then of_int total_score / of_int max_score * 100 else 0);
                min_score = get (min_seo_score config) 70;
                passed = (overall_score \<ge> min_score \<and>
                          length (filter (\<lambda>i. severity i = High) issues) = 0)
            in \<lparr>passed = passed,
                 overall_score = round1 overall_score,
                 seo_score =
                   (if check_result.max_score seo_result > 0
                    then round1 (of_int (score seo_result)
                           / of_int (check_result.max_score seo_result) * 100)
                    else 0),
                 readability_score =
                   (if check_result.max_score readability_result > 0
                    then round1 (of_int (score readability_result)
                           / of_int (check_result.max_score readability_result) * 100)
                    else 0),
                 issues = issues,
                 detailed = Some \<lparr>basic_quality = basic_result, seo_quality = seo_result,
                   content_structure = structure_result, readability = readability_result,
                   duplicate_check = duplicate_result, link_validation_result = link_result\<rparr>,
                 summary = Some \<lparr>total_issues = length issues,
                   high_severity_issues = length (filter (\<lambda>i. severity i = High) issues),
                   medium_severity_issues = length (filter (\<lambda>i. severity i = Medium) issues),
                   low_severity_issues = length (filter (\<lambda>i. severity i = Low) issues)\<rparr>\<rparr>))"

section \<open>Example inputs\<close>

text \<open>
  A discovery run: seven candidates from three providers, the third provider not enabled,
  a history that holds one of the texts, and the two candidates that survive the filter
  and the history check.
\<close>

definition example_found :: search_results where
  "example_found = \<lparr>
     search_stackoverflow =
       [\<lparr>error_message = u ''OUT_OF_MEMORY_0x1'', confidence_score = 9 / 10,
          source = ''stackoverflow''\<rparr>,
        \<lparr>error_message = u ''DISK_FULL'', confidence_score = 6 / 10,
          source = ''stackoverflow''\<rparr>,
        \<lparr>error_message = u ''Test sample error'', confidence_score = 19 / 20,
          source = ''stackoverflow''\<rparr>],
     search_reddit =
       [\<lparr>error_message = u ''Connection refused ssh'', confidence_score = 3 / 10,
          source = ''reddit''\<rparr>,
        \<lparr>error_message = u ''Kernel Panic com.apple.kext'', confidence_score = 7 / 10,
          source = ''reddit''\<rparr>,
        \<lparr>error_message = u ''502 Bad Gateway nginx'', confidence_score = 7 / 10,
          source = ''reddit''\<rparr>],
     search_google_trends =
       [\<lparr>error_message = u ''DNS resolution failed'', confidence_score = 4 / 5,
          source = ''google_trends''\<rparr>]\<rparr>"

definition example_config :: discovery_config where
  "example_config = \<lparr>stackoverflow_enabled = Some True, reddit_enabled = Some True,
     google_trends_enabled = None, min_confidence_score = None\<rparr>"

definition example_history :: "str \<Rightarrow> bool" where
  "example_history msg = (msg = u ''502 Bad Gateway nginx'')"

definition example_survivors :: "candidate list" where
  "example_survivors =
    [\<lparr>error_message = u ''OUT_OF_MEMORY_0x1'', confidence_score = 9 / 10,
       source = ''stackoverflow''\<rparr>,
     \<lparr>error_message = u ''Kernel Panic com.apple.kext'', confidence_score = 7 / 10,
       source = ''reddit''\<rparr>]"

text \<open>
  An aggregation: four solution fragments, two of them of equal reliability and one without
  the key; four citations, the second repeating the URL of the first, the third without
  a URL, the fourth with a new URL.
\<close>

definition example_solutions :: "solution list" where
  "example_solutions =
    [\<lparr>description = u ''restart'', steps = u ''1'', reliability = Some (3 / 5),
       source_url = u ''https://a.example/1'', source_title = u ''A''\<rparr>,
     \<lparr>description = u ''reinstall'', steps = u ''2'', reliability = Some (9 / 10),
       source_url = u ''https://b.example/2'', source_title = u ''B''\<rparr>,
     \<lparr>description = u ''ignore'', steps = u ''3'', reliability = None,
       source_url = u ''https://c.example/3'', source_title = u ''C''\<rparr>,
     \<lparr>description = u ''upgrade'', steps = u ''4'', reliability = Some (9 / 10),
       source_url = u ''https://a.example/1'', source_title = u ''A''\<rparr>]"

definition example_sources :: "citation list" where
  "example_sources =
    [\<lparr>cite_title = u ''A'', url = Some (u ''https://a.example/1''), cite_type = ''official'',
       cite_reliability = 1\<rparr>,
     \<lparr>cite_title = u ''A again'', url = Some (u ''https://a.example/1''), cite_type = ''community'',
       cite_reliability = 7 / 10\<rparr>,
     \<lparr>cite_title = u ''no link'', url = None, cite_type = ''community'',
       cite_reliability = 7 / 10\<rparr>,
     \<lparr>cite_title = u ''B'', url = Some (u ''https://b.example/2''), cite_type = ''community'',
       cite_reliability = 4 / 5\<rparr>]"

text \<open>
  Articles for the quality gate. A stub with one short heading line, checked against a
  configuration whose minimum score is 26.25 and whose word window starts at 0; an article
  of 500 words against the window from 3000 to 5000; an article whose content repeats the
  keyword, and one that holds it once in fifty words.
\<close>

definition stub_article :: article where
  "stub_article = \<lparr>title = u ''t'', content = u ''# x'', excerpt = [], slug = [], tags = [],
     word_count = 1, article_error_message = [], html_content = []\<rparr>"

definition lenient_config :: quality_config where
  "lenient_config = \<lparr>duplicate_detection = None, link_validation = None,
     min_seo_score = Some (105 / 4), min_word_count = Some 0, max_word_count = None\<rparr>"

definition short_article :: article where
  "short_article = \<lparr>title = u ''Disk full error'', content = u ''# Disk full'', excerpt = [],
     slug = u ''disk-full'', tags = [u ''disk''], word_count = 500,
     article_error_message = u ''disk full'', html_content = []\<rparr>"

definition window_config :: quality_config where
  "window_config = \<lparr>duplicate_detection = None, link_validation = None,
     min_seo_score = None, min_word_count = Some 3000, max_word_count = Some 5000\<rparr>"

definition dense_article :: article where
  "dense_article = \<lparr>title = u ''How to fix Disk Full errors'',
     content = u ''disk full disk full happens'', excerpt = [],
     slug = u ''disk-full'', tags = [u ''disk'', u ''storage'', u ''linux''], word_count = 5,
     article_error_message = u ''Disk full'', html_content = []\<rparr>"

definition balanced_article :: article where
  "balanced_article = dense_article\<lparr>content :=
     u ''Disk full a a a a a a a a a a a a a a a a a a a a a a a a a a a a a a a a a a a a a a a a a a a a a a a a''\<rparr>"

section \<open>Properties of the scorer\<close>

text \<open>
  C4. Monotonicity of the scorer: when every metric read from a Stack Overflow item
  (score, view count, answer count) is at least the corresponding metric of another item,
  its confidence is at least the other's; the same for two Reddit posts and their upvotes
  and comment counts. A missing metric counts as 0, as \<open>get\<close> reads it.
\<close>

theorem scorer_monotone:
  "(dict_get b ''score'' 0 \<le> dict_get a ''score'' 0 \<and>
    dict_get b ''view_count'' 0 \<le> dict_get a ''view_count'' 0 \<and>
    dict_get b ''answer_count'' 0 \<le> dict_get a ''answer_count'' 0
      \<longrightarrow> calculate_stackoverflow_confidence b \<le> calculate_stackoverflow_confidence a) \<and>
   (dict_get q ''ups'' 0 \<le> dict_get p ''ups'' 0 \<and>
    dict_get q ''num_comments'' 0 \<le> dict_get p ''num_comments'' 0
      \<longrightarrow> calculate_reddit_confidence q \<le> calculate_reddit_confidence p)"
  unfolding calculate_stackoverflow_confidence_def calculate_reddit_confidence_def Let_def
  by (intro conjI impI min.mono add_mono) auto

theorem scorer_monotone_witness:
  "dict_get [''score'' \<mapsto> 3] ''score'' 0 \<le> dict_get [''score'' \<mapsto> 12, ''view_count'' \<mapsto> 2000] ''score'' (0::int) \<and>
   dict_get [''score'' \<mapsto> 3] ''view_count'' 0 \<le> dict_get [''score'' \<mapsto> 12, ''view_count'' \<mapsto> 2000] ''view_count'' (0::int) \<and>
   dict_get [''score'' \<mapsto> 3] ''answer_count'' 0 \<le> dict_get [''score'' \<mapsto> 12, ''view_count'' \<mapsto> 2000] ''answer_count'' (0::int) \<and>
   calculate_stackoverflow_confidence [''score'' \<mapsto> 3] = 1 / 10 \<and>
   calculate_stackoverflow_confidence [''score'' \<mapsto> 12, ''view_count'' \<mapsto> 2000] = 1 / 2 \<and>
   calculate_stackoverflow_confidence [''score'' \<mapsto> 3]
     \<le> calculate_stackoverflow_confidence [''score'' \<mapsto> 12, ''view_count'' \<mapsto> 2000] \<and>
   dict_get [''ups'' \<mapsto> 6] ''ups'' 0 \<le> dict_get [''ups'' \<mapsto> 60, ''num_comments'' \<mapsto> 11] ''ups'' (0::int) \<and>
   dict_get [''ups'' \<mapsto> 6] ''num_comments'' 0 \<le> dict_get [''ups'' \<mapsto> 60, ''num_comments'' \<mapsto> 11] ''num_comments'' (0::int) \<and>
   calculate_reddit_confidence [''ups'' \<mapsto> 6] = 1 / 5 \<and>
   calculate_reddit_confidence [''ups'' \<mapsto> 60, ''num_comments'' \<mapsto> 11] = 3 / 5 \<and>
   calculate_reddit_confidence [''ups'' \<mapsto> 6]
     \<le> calculate_reddit_confidence [''ups'' \<mapsto> 60, ''num_comments'' \<mapsto> 11]"
  using scorer_monotone [of "[''score'' \<mapsto> 3]" "[''score'' \<mapsto> 12, ''view_count'' \<mapsto> 2000]"
      "[''ups'' \<mapsto> 6]" "[''ups'' \<mapsto> 60, ''num_comments'' \<mapsto> 11]"]
  by (simp add: calculate_stackoverflow_confidence_def calculate_reddit_confidence_def dict_get_def)

text \<open>
  C5. Clamp property of the scorer: for every provider record, whatever its metric values
  (zero, very large, or missing and read as 0), the confidence lies in the closed interval
  from 0 to 1. The scorer is a total function of the record: it has no failing branch.
\<close>

theorem scorer_confidence_in_unit_interval:
  "0 \<le> calculate_stackoverflow_confidence item \<and> calculate_stackoverflow_confidence item \<le> 1 \<and>
   0 \<le> calculate_reddit_confidence post_data \<and> calculate_reddit_confidence post_data \<le> 1"
  unfolding calculate_stackoverflow_confidence_def calculate_reddit_confidence_def Let_def
  by simp

section \<open>Library facts: sorting, searching, weighted choice\<close>

lemma sort_reverse_mset: "mset (sort_reverse f xs) = mset xs"
  by (simp add: sort_reverse_def)

lemma sort_reverse_length: "length (sort_reverse f xs) = length xs"
  by (simp add: sort_reverse_def)

lemma sort_reverse_set: "set (sort_reverse f xs) = set xs"
  by (simp add: sort_reverse_def)

lemma sort_reverse_sorted: "sorted_wrt (\<lambda>a b. f b \<le> f a) (sort_reverse f xs)"
proof -
  have "sorted (map f (sort_key f (rev xs)))" by simp
  then have "sorted_wrt (\<lambda>a b. f a \<le> f b) (sort_key f (rev xs))"
    by (simp add: sorted_map)
  then show ?thesis
    by (simp add: sort_reverse_def sorted_wrt_rev)
qed

lemma sort_reverse_stable:
  "filter (\<lambda>y. f y = k) (sort_reverse f xs) = filter (\<lambda>y. f y = k) xs"
  by (simp add: sort_reverse_def rev_filter [symmetric] sort_key_stable)

lemma sort_reverse_id:
  assumes "sorted_wrt (\<lambda>a b. f b \<le> f a) xs"
  shows "sort_reverse f xs = xs"
proof -
  have "sorted_wrt (\<lambda>a b. f a \<le> f b) (rev xs)"
    using assms by (simp add: sorted_wrt_rev)
  then have "sorted (map f (rev xs))" by (simp add: sorted_map)
  then have "sort_key f (rev xs) = rev xs" by (rule sort_key_id_if_sorted)
  then show ?thesis by (simp add: sort_reverse_def)
qed

lemma str_in_iff_sublist: "str_in sub s \<longleftrightarrow> sublist sub s"
  by (induction s) (auto simp: sublist_Cons_right)

lemma bisect_bounds: "lo \<le> hi \<Longrightarrow> lo \<le> bisect a x lo hi \<and> bisect a x lo hi \<le> hi"
proof (induction a x lo hi rule: bisect.induct)
  case (1 a x lo hi)
  show ?case
  proof (cases "lo < hi")
    case False
    with "1.prems" show ?thesis by simp
  next
    case True
    let ?mid = "(lo + hi) div 2"
    have mid: "lo \<le> ?mid" "?mid < hi" using True by auto
    show ?thesis
    proof (cases "x < of_int (a ! ?mid)")
      case lt: True
      from "1.IH"(1) [OF True refl lt] mid have "lo \<le> bisect a x lo ?mid \<and> bisect a x lo ?mid \<le> ?mid"
        by simp
      moreover have "bisect a x lo hi = bisect a x lo ?mid"
        using True lt by (subst bisect.simps) (simp add: Let_def)
      ultimately show ?thesis using mid by simp
    next
      case ge: False
      from "1.IH"(2) [OF True refl ge] mid
      have "?mid + 1 \<le> bisect a x (?mid + 1) hi \<and> bisect a x (?mid + 1) hi \<le> hi"
        by simp
      moreover have "bisect a x lo hi = bisect a x (?mid + 1) hi"
        using True ge by (subst bisect.simps) (simp add: Let_def)
      ultimately show ?thesis using mid by simp
    qed
  qed
qed

lemma accumulate_from_length: "length (accumulate_from t ws) = length ws"
  by (induction ws arbitrary: t) auto

lemma accumulate_from_last:
  "ws \<noteq> [] \<Longrightarrow> last (accumulate_from t ws) = t + sum_list ws"
proof (induction ws arbitrary: t)
  case Nil
  then show ?case by simp
next
  case (Cons w ws)
  show ?case
  proof (cases ws)
    case Nil
    then show ?thesis by simp
  next
    case (Cons v vs)
    then have "accumulate_from (t + w) ws \<noteq> []" by simp
    with Cons.IH [of "t + w"] Cons show ?thesis by simp
  qed
qed

lemma selection_weights_length: "length (selection_weights cs) = length cs"
  by (simp add: selection_weights_def)

lemma selection_weights_nth:
  "i < length cs \<Longrightarrow> selection_weights cs ! i = max 1 (4 - int i)"
  by (simp add: selection_weights_def)

lemma selection_weights_positive: "w \<in> set (selection_weights cs) \<Longrightarrow> 1 \<le> w"
  by (auto simp: selection_weights_def)

lemma sum_list_positive:
  fixes ws :: "int list"
  assumes "ws \<noteq> []" and "\<And>w. w \<in> set ws \<Longrightarrow> 1 \<le> w"
  shows "0 < sum_list ws"
  using assms
proof (induction ws)
  case Nil
  then show ?case by simp
next
  case (Cons a ws)
  have a: "1 \<le> a" using Cons.prems(2) by simp
  show ?case
  proof (cases ws)
    case Nil
    with a show ?thesis by simp
  next
    case (Cons v vs)
    then have "0 < sum_list ws" using Cons.IH Cons.prems(2) by simp
    with a show ?thesis by simp
  qed
qed

lemma random_choices_member:
  assumes "population \<noteq> []" and "length weights = length population"
    and "0 < sum_list weights"
  shows "\<exists>c. random_choices population weights r = Inr c \<and> c \<in> set population"
proof -
  let ?cum = "accumulate weights"
  have len: "length ?cum = length population"
    using assms(2) by (simp add: accumulate_def accumulate_from_length)
  then have ne: "?cum \<noteq> []" using assms(1) by auto
  have "weights \<noteq> []" using assms(1,2) by auto
  then have "last ?cum = sum_list weights"
    by (simp add: accumulate_def accumulate_from_last)
  then have pos: "\<not> (of_int (last ?cum) :: rat) \<le> 0" using assms(3) by simp
  let ?i = "bisect ?cum (r * of_int (last ?cum)) 0 (length population - 1)"
  have "?i \<le> length population - 1" using bisect_bounds [of 0 "length population - 1"] by simp
  then have "?i < length population" using assms(1) by (cases population) auto
  then have "population ! ?i \<in> set population" by simp
  moreover have "random_choices population weights r = Inr (population ! ?i)"
    using len ne pos by (simp add: random_choices_def Let_def)
  ultimately show ?thesis by simp
qed

lemma top_candidates_nonempty: "pool \<noteq> [] \<Longrightarrow> top_candidates pool \<noteq> []"
proof -
  assume "pool \<noteq> []"
  then have "sort_reverse confidence_score pool \<noteq> []"
    using sort_reverse_length [of confidence_score pool] by auto
  then show ?thesis
    by (simp add: top_candidates_def Let_def take_eq_Nil)
qed

lemma select_candidate_member:
  assumes "pool \<noteq> []"
  shows "\<exists>c. select_candidate r pool = Inr c \<and> c \<in> set (top_candidates pool)"
proof -
  have ne: "top_candidates pool \<noteq> []" using assms by (rule top_candidates_nonempty)
  then have "selection_weights (top_candidates pool) \<noteq> []"
    using selection_weights_length [of "top_candidates pool"] by auto
  then have "0 < sum_list (selection_weights (top_candidates pool))"
    using selection_weights_positive by (intro sum_list_positive) auto
  from random_choices_member [OF ne selection_weights_length this]
  show ?thesis by (simp add: select_candidate_def Let_def)
qed

lemma subseq_member: "subseq xs ys \<Longrightarrow> x \<in> set xs \<Longrightarrow> x \<in> set ys"
  by (auto dest: list_emb_set)

lemma filter_candidates_subseq: "subseq (filter_candidates rt criteria pool) pool"
  by (induction pool) (auto simp: Let_def)

lemma filter_candidates_retained:
  "c \<in> set (filter_candidates rt criteria pool) \<Longrightarrow>
     get (min_confidence_score criteria) (1 / 2) \<le> confidence_score c \<and>
     10 \<le> length (str_lower rt (error_message c)) \<and>
     \<not> list_ex (\<lambda>keyword. str_in keyword (str_lower rt (error_message c))) exclude_keywords"
  by (induction pool) (auto simp: Let_def split: if_splits)

lemma unprocessed_candidates_subseq: "subseq (unprocessed_candidates am cs) cs"
  by (cases am) (auto simp: unprocessed_candidates_def)

lemma unprocessed_candidates_retained:
  "c \<in> set (unprocessed_candidates (Some p) cs) \<Longrightarrow> \<not> p (error_message c)"
  by (simp add: unprocessed_candidates_def)

section \<open>Facts about the aggregator's loop\<close>









lemma integrate_information_after:
  "snd (integrate_information now c sols srcs) = sort_reverse (\<lambda>x. get (reliability x) 0) sols"
  by (simp add: integrate_information_def Let_def)

section \<open>Properties of the filter and the selector\<close>

text \<open>
  C3. The filter stage (the filter loop followed by the duplicate check against the
  processing history) returns a subsequence of the pool, and every candidate it keeps is a
  member of the pool whose confidence is at least the configured minimum (0.5 when none is
  configured), whose lowered text has at least 10 characters and contains none of the
  exclusion keywords as a substring (a case-insensitive match: text and keywords are in
  lower case), and which the caller's duplicate-check predicate, when one is supplied,
  does not report as processed.
\<close>

theorem filter_stage_sound:
  "subseq (unprocessed_candidates article_manager (filter_candidates rt criteria pool)) pool \<and>
   (\<forall>c \<in> set (unprocessed_candidates article_manager (filter_candidates rt criteria pool)).
      c \<in> set pool \<and>
      get (min_confidence_score criteria) (1 / 2) \<le> confidence_score c \<and>
      10 \<le> length (str_lower rt (error_message c)) \<and>
      (\<forall>keyword \<in> set exclude_keywords.
         \<not> sublist keyword (str_lower rt (error_message c))) \<and>
      (\<forall>is_error_already_processed. article_manager = Some is_error_already_processed
         \<longrightarrow> \<not> is_error_already_processed (error_message c)))"
proof -
  let ?out = "unprocessed_candidates article_manager (filter_candidates rt criteria pool)"
  have sub: "subseq ?out pool"
    using unprocessed_candidates_subseq filter_candidates_subseq by (rule subseq_order.trans)
  have "c \<in> set pool \<and>
      get (min_confidence_score criteria) (1 / 2) \<le> confidence_score c \<and>
      10 \<le> length (str_lower rt (error_message c)) \<and>
      (\<forall>keyword \<in> set exclude_keywords.
         \<not> sublist keyword (str_lower rt (error_message c))) \<and>
      (\<forall>is_error_already_processed. article_manager = Some is_error_already_processed
         \<longrightarrow> \<not> is_error_already_processed (error_message c))"
    if c: "c \<in> set ?out" for c
  proof -
    have "c \<in> set pool" using sub c by (rule subseq_member)
    moreover have "c \<in> set (filter_candidates rt criteria pool)"
      using unprocessed_candidates_subseq c by (rule subseq_member)
    note filter_candidates_retained [OF this]
    moreover have "\<forall>p. article_manager = Some p \<longrightarrow> \<not> p (error_message c)"
      using c unprocessed_candidates_retained by blast
    ultimately show ?thesis
      by (simp add: list_ex_iff str_in_iff_sublist)
  qed
  with sub show ?thesis by blast
qed

theorem filter_stage_sound_witness:
  "unprocessed_candidates (Some example_history)
     (filter_candidates ascii_runtime example_config (gather_candidates example_config example_found))
     = example_survivors \<and>
   subseq example_survivors (gather_candidates example_config example_found) \<and>
   1 / 2 \<le> confidence_score (example_survivors ! 1) \<and>
   10 \<le> length (str_lower ascii_runtime (error_message (example_survivors ! 1))) \<and>
   \<not> sublist (u ''test'') (str_lower ascii_runtime (error_message (example_survivors ! 1))) \<and>
   \<not> example_history (error_message (example_survivors ! 1))"
proof -
  let ?pool = "gather_candidates example_config example_found"
  have run: "unprocessed_candidates (Some example_history)
      (filter_candidates ascii_runtime example_config ?pool) = example_survivors"
    by (simp add: example_found_def example_config_def example_history_def example_survivors_def
        gather_candidates_def unprocessed_candidates_def ascii_runtime_def get_def u_def
        exclude_keywords_def Let_def)
  have mem: "example_survivors ! 1 \<in> set example_survivors"
    by (simp add: example_survivors_def)
  have kw: "u ''test'' \<in> set exclude_keywords"
    by (simp add: exclude_keywords_def)
  have dflt: "get (min_confidence_score example_config) (1 / 2) = 1 / 2"
    by (simp add: example_config_def get_def)
  from filter_stage_sound [of "Some example_history" ascii_runtime example_config ?pool]
  show ?thesis
    unfolding run using mem kw dflt by (auto simp: run)
qed

text \<open>
  C2. For every non-empty filtered pool, the selection sorts the candidates in descending
  order of confidence (a permutation of the pool that keeps the candidates of equal
  confidence in their order of discovery), takes as window the first
  \<open>max(3, pool_size div 3)\<close> of them, gives the window position \<open>i\<close> (from 0) the weight
  \<open>max(1, 4 - i)\<close>, and returns a member of the window, whatever the random draw;
  \<open>find_trending_error\<close> returns that candidate.
\<close>

theorem selection_within_window:
  assumes "pool \<noteq> []"
  shows "sorted_wrt (\<lambda>a b. confidence_score b \<le> confidence_score a)
           (sort_reverse confidence_score pool) \<and>
         mset (sort_reverse confidence_score pool) = mset pool \<and>
         (\<forall>k. filter (\<lambda>c. confidence_score c = k) (sort_reverse confidence_score pool)
                = filter (\<lambda>c. confidence_score c = k) pool) \<and>
         top_candidates pool
           = take (max 3 (length pool div 3)) (sort_reverse confidence_score pool) \<and>
         length (selection_weights (top_candidates pool)) = length (top_candidates pool) \<and>
         (\<forall>i < length (top_candidates pool).
            selection_weights (top_candidates pool) ! i = max 1 (4 - int i)) \<and>
         (\<exists>c. select_candidate r pool = Inr c \<and> c \<in> set (top_candidates pool)) \<and>
         (pool = unprocessed_candidates article_manager
                   (filter_candidates rt config (gather_candidates config found))
            \<longrightarrow> (\<exists>c. find_trending_error rt config found article_manager r = Inr (Some c)
                       \<and> c \<in> set (top_candidates pool)))"
proof (intro conjI allI impI)
  show "sorted_wrt (\<lambda>a b. confidence_score b \<le> confidence_score a)
          (sort_reverse confidence_score pool)"
    by (rule sort_reverse_sorted)
  show "mset (sort_reverse confidence_score pool) = mset pool"
    by (rule sort_reverse_mset)
  show "filter (\<lambda>c. confidence_score c = k) (sort_reverse confidence_score pool)
          = filter (\<lambda>c. confidence_score c = k) pool" for k
    by (rule sort_reverse_stable)
  show "top_candidates pool
          = take (max 3 (length pool div 3)) (sort_reverse confidence_score pool)"
    by (simp add: top_candidates_def Let_def sort_reverse_length)
  show "length (selection_weights (top_candidates pool)) = length (top_candidates pool)"
    by (rule selection_weights_length)
  show "selection_weights (top_candidates pool) ! i = max 1 (4 - int i)"
    if "i < length (top_candidates pool)" for i
    using that by (rule selection_weights_nth)
  show sel: "\<exists>c. select_candidate r pool = Inr c \<and> c \<in> set (top_candidates pool)"
    using assms by (rule select_candidate_member)
  assume pool: "pool = unprocessed_candidates article_manager
                   (filter_candidates rt config (gather_candidates config found))"
  from sel obtain c where c: "select_candidate r pool = Inr c" "c \<in> set (top_candidates pool)"
    by blast
  have "filter_candidates rt config (gather_candidates config found) \<noteq> []"
    using assms pool by (cases article_manager) (auto simp: unprocessed_candidates_def)
  moreover from this have "gather_candidates config found \<noteq> []" by auto
  ultimately have "find_trending_error rt config found article_manager r = Inr (Some c)"
    using assms pool c(1) by (simp add: find_trending_error_def Let_def)
  with c(2) show "\<exists>c. find_trending_error rt config found article_manager r = Inr (Some c)
                       \<and> c \<in> set (top_candidates pool)"
    by simp
qed

theorem selection_within_window_witness:
  "example_survivors \<noteq> [] \<and>
   example_survivors = unprocessed_candidates (Some example_history)
     (filter_candidates ascii_runtime example_config (gather_candidates example_config example_found)) \<and>
   top_candidates example_survivors = example_survivors \<and>
   selection_weights (top_candidates example_survivors) = [4, 3] \<and>
   select_candidate (3 / 5) example_survivors = Inr (example_survivors ! 1) \<and>
   example_survivors ! 1 \<in> set (top_candidates example_survivors) \<and>
   find_trending_error ascii_runtime example_config example_found (Some example_history) (3 / 5)
     = Inr (Some (example_survivors ! 1))"
proof -
  have ne: "example_survivors \<noteq> []"
    by (simp add: example_survivors_def)
  have run: "example_survivors = unprocessed_candidates (Some example_history)
      (filter_candidates ascii_runtime example_config (gather_candidates example_config example_found))"
    by (simp add: example_found_def example_config_def example_history_def example_survivors_def
        gather_candidates_def unprocessed_candidates_def ascii_runtime_def get_def u_def
        exclude_keywords_def Let_def)
  have window: "top_candidates example_survivors = example_survivors"
    by (simp add: top_candidates_def sort_reverse_def example_survivors_def Let_def)
  have weights: "selection_weights (top_candidates example_survivors) = [4, 3]"
    unfolding window by (simp add: selection_weights_def example_survivors_def upt_rec)
  have "bisect [4, 7] (21 / 5) 0 1 = bisect [4, 7] (21 / 5) 1 1"
    by (subst bisect.simps) simp
  also have "\<dots> = 1" by (subst bisect.simps) simp
  finally have search: "bisect [4, 7] (21 / 5) 0 1 = 1" .
  have len: "length example_survivors = 2"
    by (simp add: example_survivors_def)
  have "select_candidate (3 / 5) example_survivors = random_choices example_survivors [4, 3] (3 / 5)"
    by (simp add: select_candidate_def Let_def window weights [unfolded window])
  also have "\<dots> = Inr (example_survivors ! 1)"
    by (simp add: random_choices_def accumulate_def Let_def len search)
  finally have pick: "select_candidate (3 / 5) example_survivors = Inr (example_survivors ! 1)" .
  from selection_within_window [OF ne, of "3 / 5"]
  obtain c where "select_candidate (3 / 5) example_survivors = Inr c"
    and "c \<in> set (top_candidates example_survivors)"
    by blast
  with pick have mem: "example_survivors ! 1 \<in> set (top_candidates example_survivors)"
    by simp
  have gathered: "gather_candidates example_config example_found \<noteq> []"
    by (simp add: gather_candidates_def example_config_def example_found_def get_def)
  have filtered: "filter_candidates ascii_runtime example_config
      (gather_candidates example_config example_found) \<noteq> []"
    using ne run by (auto simp: unprocessed_candidates_def)
  have "find_trending_error ascii_runtime example_config example_found (Some example_history) (3 / 5)
      = Inr (Some (example_survivors ! 1))"
    using ne pick by (simp add: find_trending_error_def Let_def gathered filtered run [symmetric])
  with ne run window weights pick mem show ?thesis by simp
qed

section \<open>Properties of the discovery operation\<close>

text \<open>
  C6. The discovery operation never raises: for every configuration, every result of the
  adapters, every history predicate and every random draw it returns a value. When the
  adapters yield no candidate, when no candidate passes the filter, or when every candidate
  that passes is already in the history, that value is \<open>None\<close>.
\<close>

theorem discovery_never_raises:
  "(\<exists>result. find_trending_error rt config found article_manager r = Inr result) \<and>
   (gather_candidates config found = []
      \<longrightarrow> find_trending_error rt config found article_manager r = Inr None) \<and>
   (filter_candidates rt config (gather_candidates config found) = []
      \<longrightarrow> find_trending_error rt config found article_manager r = Inr None) \<and>
   (unprocessed_candidates article_manager
      (filter_candidates rt config (gather_candidates config found)) = []
      \<longrightarrow> find_trending_error rt config found article_manager r = Inr None)"
proof -
  let ?all = "gather_candidates config found"
  let ?filtered = "filter_candidates rt config ?all"
  let ?pool = "unprocessed_candidates article_manager ?filtered"
  have none1: "find_trending_error rt config found article_manager r = Inr None" if "?all = []"
    using that by (simp add: find_trending_error_def)
  have none2: "find_trending_error rt config found article_manager r = Inr None"
    if "?filtered = []"
    using that by (simp add: find_trending_error_def Let_def)
  have none3: "find_trending_error rt config found article_manager r = Inr None" if "?pool = []"
    using that by (simp add: find_trending_error_def Let_def)
  have "\<exists>result. find_trending_error rt config found article_manager r = Inr result"
  proof (cases "?pool = []")
    case True
    then show ?thesis using none3 by simp
  next
    case False
    from select_candidate_member [OF False, of r]
    obtain c where "select_candidate r ?pool = Inr c" by blast
    then show ?thesis by (simp add: find_trending_error_def Let_def)
  qed
  with none1 none2 none3 show ?thesis by blast
qed


theorem discovery_never_raises_witness:
  "gather_candidates (example_config\<lparr>stackoverflow_enabled := None, reddit_enabled := Some False\<rparr>)
     example_found = [] \<and>
   find_trending_error ascii_runtime
     (example_config\<lparr>stackoverflow_enabled := None, reddit_enabled := Some False\<rparr>)
     example_found None (1 / 2) = Inr None \<and>
   gather_candidates example_config example_found \<noteq> [] \<and>
   filter_candidates ascii_runtime example_config (gather_candidates example_config example_found)
     \<noteq> [] \<and>
   unprocessed_candidates (Some (\<lambda>msg. True))
     (filter_candidates ascii_runtime example_config (gather_candidates example_config example_found))
     = [] \<and>
   find_trending_error ascii_runtime example_config example_found (Some (\<lambda>msg. True)) (1 / 2)
     = Inr None"
proof -
  let ?off = "example_config\<lparr>stackoverflow_enabled := None, reddit_enabled := Some False\<rparr>"
  have none: "gather_candidates ?off example_found = []"
    by (simp add: gather_candidates_def example_config_def get_def)
  have some: "gather_candidates example_config example_found \<noteq> []"
    by (simp add: gather_candidates_def example_config_def example_found_def get_def)
  have kept: "filter_candidates ascii_runtime example_config
      (gather_candidates example_config example_found) \<noteq> []"
    by (simp add: example_found_def example_config_def gather_candidates_def ascii_runtime_def
        get_def u_def exclude_keywords_def Let_def)
  have seen: "unprocessed_candidates (Some (\<lambda>msg. True))
      (filter_candidates ascii_runtime example_config
        (gather_candidates example_config example_found)) = []"
    by (simp add: unprocessed_candidates_def)
  from discovery_never_raises [of ascii_runtime ?off example_found None "1 / 2"] none
  have first: "find_trending_error ascii_runtime ?off example_found None (1 / 2) = Inr None"
    by blast
  from discovery_never_raises [of ascii_runtime example_config example_found
      "Some (\<lambda>msg. True)" "1 / 2"] seen
  have "find_trending_error ascii_runtime example_config example_found (Some (\<lambda>msg. True)) (1 / 2)
      = Inr None"
    by blast
  with none first some kept seen show ?thesis by simp
qed

section \<open>Properties of the aggregator\<close>



text \<open>
  C10, as the code has it. The aggregation computes its bundle from its arguments and the
  clock alone, and only reads the candidate and the citations; but it sorts the caller's
  list of solution fragments in place. After the call that list holds the stable descending
  sort of its previous content: the same fragments (a permutation), in descending order of
  reliability. It is the same sequence as before exactly when the fragments were already
  in descending order of reliability.
\<close>

theorem aggregate_sorts_callers_solutions:
  "snd (integrate_information now c sols srcs) = sort_reverse (\<lambda>x. get (reliability x) 0) sols \<and>
   mset (snd (integrate_information now c sols srcs)) = mset sols \<and>
   sorted_wrt (\<lambda>a b. get (reliability b) 0 \<le> get (reliability a) 0)
     (snd (integrate_information now c sols srcs)) \<and>
   (snd (integrate_information now c sols srcs) = sols
      \<longleftrightarrow> sorted_wrt (\<lambda>a b. get (reliability b) 0 \<le> get (reliability a) 0) sols)"
proof -
  let ?key = "\<lambda>x. get (reliability x) (0::rat)"
  have "sort_reverse ?key sols = sols \<longleftrightarrow> sorted_wrt (\<lambda>a b. ?key b \<le> ?key a) sols"
  proof
    assume "sort_reverse ?key sols = sols"
    with sort_reverse_sorted [of ?key sols]
    show "sorted_wrt (\<lambda>a b. ?key b \<le> ?key a) sols" by simp
  next
    assume "sorted_wrt (\<lambda>a b. ?key b \<le> ?key a) sols"
    then show "sort_reverse ?key sols = sols" by (rule sort_reverse_id)
  qed
  then show ?thesis
    by (simp add: integrate_information_after sort_reverse_mset sort_reverse_sorted)
qed

theorem aggregate_sorts_callers_solutions_witness:
  "snd (integrate_information 0 (example_survivors ! 0) example_solutions example_sources)
     = [example_solutions ! 1, example_solutions ! 3, example_solutions ! 0, example_solutions ! 2] \<and>
   mset (snd (integrate_information 0 (example_survivors ! 0) example_solutions example_sources))
     = mset example_solutions"
proof -
  have "sort_reverse (\<lambda>x. get (reliability x) 0) example_solutions
      = [example_solutions ! 1, example_solutions ! 3, example_solutions ! 0, example_solutions ! 2]"
    by (simp add: sort_reverse_def example_solutions_def get_def)
  moreover note aggregate_sorts_callers_solutions
    [of 0 "example_survivors ! 0" example_solutions example_sources]
  ultimately have "snd (integrate_information 0 (example_survivors ! 0) example_solutions example_sources)
      = [example_solutions ! 1, example_solutions ! 3, example_solutions ! 0, example_solutions ! 2]"
    and "mset (snd (integrate_information 0 (example_survivors ! 0) example_solutions example_sources))
      = mset example_solutions"
    by metis+
  then show ?thesis by (rule conjI)
qed

theorem aggregate_mutates_solutions_counterexample:
  "snd (integrate_information 0 (example_survivors ! 0) example_solutions example_sources)
     \<noteq> example_solutions"
  by (simp add: integrate_information_after sort_reverse_def example_solutions_def get_def)

section \<open>Facts about the quality gate\<close>

lemma round_half_even_mono:
  assumes "x \<le> y"
  shows "round_half_even x \<le> round_half_even y"
proof (cases "\<lfloor>x\<rfloor> = \<lfloor>y\<rfloor>")
  case True
  then have "x - of_int \<lfloor>x\<rfloor> \<le> y - of_int \<lfloor>y\<rfloor>" using assms by simp
  then show ?thesis using True by (auto simp: round_half_even_def Let_def)
next
  case False
  have "\<lfloor>x\<rfloor> \<le> \<lfloor>y\<rfloor>" using assms by (rule floor_mono)
  with False have lt: "\<lfloor>x\<rfloor> + 1 \<le> \<lfloor>y\<rfloor>" by simp
  have "round_half_even x \<le> \<lfloor>x\<rfloor> + 1" by (simp add: round_half_even_def Let_def)
  moreover have "\<lfloor>y\<rfloor> \<le> round_half_even y" by (simp add: round_half_even_def Let_def)
  ultimately show ?thesis using lt by linarith
qed

lemma round_half_even_of_int: "round_half_even (of_int k) = k"
  by (simp add: round_half_even_def)

lemma round1_mono: "x \<le> y \<Longrightarrow> round1 x \<le> round1 y"
  by (simp add: round1_def round_half_even_mono divide_right_mono)

lemma round1_tenths: "round1 (of_int k / 10) = of_int k / 10"
  by (simp add: round1_def round_half_even_of_int)

lemma check_quality_cases:
  "check_quality rt config a = error_report \<or>
   (\<exists>raw. passed (check_quality rt config a)
             = (get (min_seo_score config) 70 \<le> raw \<and>
                length (filter (\<lambda>i. severity i = High) (issues (check_quality rt config a))) = 0) \<and>
          overall_score (check_quality rt config a) = round1 raw)"
proof (cases "if get (link_validation config) False
              then map_option Some (check_links rt a) else Some None")
  case None
  then show ?thesis by (simp add: check_quality_def Let_def)
next
  case (Some link_result)
  then show ?thesis
    unfolding check_quality_def Let_def by (simp del: length_0_conv) blast
qed

lemma check_quality_basic_issues:
  "check_quality rt config a = error_report \<or>
   (\<exists>more. issues (check_quality rt config a) = check_issues (check_basic_quality config a) @ more)"
proof (cases "if get (link_validation config) False
              then map_option Some (check_links rt a) else Some None")
  case None
  then show ?thesis by (simp add: check_quality_def Let_def)
next
  case (Some link_result)
  show ?thesis
  proof (cases "duplicate_detection config")
    case None
    with Some show ?thesis
      unfolding check_quality_def Let_def by (cases link_result) (simp_all add: get_def)
  next
    case dup: (Some flag)
    with Some show ?thesis
      unfolding check_quality_def Let_def by (cases link_result) (simp_all add: get_def)
  qed
qed

lemma stub_basic: "check_basic_quality lenient_config stub_article =
    \<lparr>score = 50, max_score = 100,
      check_issues = [\<lparr>message = TitleTooShort, severity = Medium\<rparr>,
                      \<lparr>message = ExcerptMissing, severity = Medium\<rparr>],
      check_passed = Some False\<rparr>"
  by (simp add: check_basic_quality_def lenient_config_def stub_article_def get_def u_def)

lemma stub_seo: "check_seo_quality ascii_runtime stub_article =
    \<lparr>score = 0, max_score = 100,
      check_issues = [\<lparr>message = TagsMissing, severity = Medium\<rparr>],
      check_passed = Some False\<rparr>"
  by (simp add: check_seo_quality_def slug_check_def tags_check_def image_alt_check_def
      stub_article_def)

lemma stub_structure: "check_content_structure ascii_runtime stub_article =
    \<lparr>score = 30, max_score = 100,
      check_issues = [\<lparr>message = H2Missing, severity = Medium\<rparr>,
                      \<lparr>message = ListMissing, severity = Low\<rparr>],
      check_passed = Some False\<rparr>"
  by (simp add: check_content_structure_def stub_article_def u_def str_count_def
      list_item_here_def ascii_runtime_def Let_def)

lemma stub_readability: "check_readability ascii_runtime stub_article =
    \<lparr>score = 25, max_score = 100,
      check_issues = [\<lparr>message = KanjiDensityUnsuitable 0, severity = Low\<rparr>,
                      \<lparr>message = ConnectivesTooFew, severity = Low\<rparr>,
                      \<lparr>message = BlankLinesTooFew, severity = Low\<rparr>],
      check_passed = Some False\<rparr>"
  by (simp add: check_readability_def stub_article_def u_def str_count_def str_strip_def
      technical_terms_def connectives_def explained_here_def ascii_runtime_def Let_def)


lemma seo_tail_additive:
  "image_alt_check a (tags_check a (slug_check a (s, i)))
     = (s + fst (image_alt_check a (tags_check a (slug_check a (0, [])))),
        i @ snd (image_alt_check a (tags_check a (slug_check a (0, [])))))"
  by (simp add: image_alt_check_def tags_check_def slug_check_def Let_def)

lemma seo_tail_same:
  "image_alt_check (a\<lparr>content := c\<rparr>) (tags_check (a\<lparr>content := c\<rparr>) (slug_check (a\<lparr>content := c\<rparr>) acc))
     = image_alt_check a (tags_check a (slug_check a acc))"
  by (simp add: image_alt_check_def tags_check_def slug_check_def)

lemma seo_tail_severity:
  "x \<in> set (snd (image_alt_check a (tags_check a (slug_check a (0, []))))) \<Longrightarrow> severity x \<noteq> High"
  by (auto simp: image_alt_check_def tags_check_def slug_check_def Let_def split: if_splits)

lemma seo_head_same:
  "keyword_excerpt_check rt (a\<lparr>content := c\<rparr>) (keyword_title_check rt (a\<lparr>content := c\<rparr>) acc)
     = keyword_excerpt_check rt a (keyword_title_check rt a acc)"
  by (simp add: keyword_excerpt_check_def keyword_title_check_def)

lemma seo_head_severity:
  "x \<in> set (snd (keyword_excerpt_check rt a (keyword_title_check rt a (0, [])))) \<Longrightarrow>
     severity x = High \<Longrightarrow> message x = KeywordNotInTitle"
  by (auto simp: keyword_excerpt_check_def keyword_title_check_def Let_def split: if_splits)

lemma density_empty_content: "keyword_density_check rt (a\<lparr>content := []\<rparr>) acc = acc"
  by (cases acc) (simp add: keyword_density_check_def)

lemma density_step:
  assumes "content a \<noteq> []" and "str_split rt (content a) \<noteq> []"
  shows "keyword_density_check rt a (s, i) =
    (let d = of_nat (str_count (str_lower rt (content a)) (str_lower rt (article_error_message a)))
               / of_nat (length (str_split rt (content a))) * 100
     in if 1 \<le> d \<and> d \<le> 3 then (s + 25, i)
        else if 1 / 2 \<le> d \<and> d < 1
        then (s + 15, i @ [\<lparr>message = KeywordDensityTooLow d, severity = Low\<rparr>])
        else if 3 < d then (s, i @ [\<lparr>message = KeywordDensityTooHigh d, severity = Medium\<rparr>])
        else (s, i @ [\<lparr>message = KeywordScarce, severity = Medium\<rparr>]))"
  using assms by (simp add: keyword_density_check_def Let_def)

lemma check_seo_quality_keyword:
  assumes "article_error_message a \<noteq> []"
  shows "score (check_seo_quality rt a)
      = fst (image_alt_check a (tags_check a (slug_check a
          (keyword_density_check rt a
            (keyword_excerpt_check rt a (keyword_title_check rt a (0, []))))))) \<and>
    check_issues (check_seo_quality rt a)
      = snd (image_alt_check a (tags_check a (slug_check a
          (keyword_density_check rt a
            (keyword_excerpt_check rt a (keyword_title_check rt a (0, [])))))))"
  using assms by (simp add: check_seo_quality_def Let_def split: prod.splits)

lemma dense_density:
  "of_nat (str_count (str_lower ascii_runtime (content dense_article))
             (str_lower ascii_runtime (article_error_message dense_article)))
     / of_nat (length (str_split ascii_runtime (content dense_article))) * 100 = (40::rat)"
  by (simp add: dense_article_def ascii_runtime_def u_def str_count_def str_split_def)

lemma balanced_density:
  "of_nat (str_count (str_lower ascii_runtime (content balanced_article))
             (str_lower ascii_runtime (article_error_message balanced_article)))
     / of_nat (length (str_split ascii_runtime (content balanced_article))) * 100 = (2::rat)"
  by (simp add: balanced_article_def dense_article_def ascii_runtime_def u_def str_count_def
      str_split_def)

section \<open>Properties of the quality gate\<close>

text \<open>
  C1, as the code has it. The gate compares the overall score before rounding with the
  configured minimum (70 when none is configured) and reports the score rounded to one
  decimal. So \<open>passed = true\<close> implies that the reported overall score is at least the
  configured minimum rounded to one decimal, hence at least the configured minimum itself
  whenever that is a multiple of one tenth, as the default 70 is; and it implies that no
  issue of the report has severity high. This holds for every article and every
  configuration, also when the exception handler builds the report.
\<close>

theorem quality_gate_pass_invariant:
  "passed (check_quality rt config a) \<longrightarrow>
     round1 (get (min_seo_score config) 70) \<le> overall_score (check_quality rt config a) \<and>
     (\<forall>k::int. get (min_seo_score config) 70 = of_int k / 10
        \<longrightarrow> get (min_seo_score config) 70 \<le> overall_score (check_quality rt config a)) \<and>
     (\<forall>i \<in> set (issues (check_quality rt config a)). severity i \<noteq> High)"
proof
  assume pass: "passed (check_quality rt config a)"
  then have "check_quality rt config a \<noteq> error_report"
    by (auto simp: error_report_def)
  with check_quality_cases [of rt config a] pass obtain raw
    where raw: "get (min_seo_score config) 70 \<le> raw"
      and none: "length (filter (\<lambda>i. severity i = High) (issues (check_quality rt config a))) = 0"
      and shown: "overall_score (check_quality rt config a) = round1 raw"
    by auto
  from raw have le: "round1 (get (min_seo_score config) 70) \<le> overall_score (check_quality rt config a)"
    unfolding shown by (rule round1_mono)
  moreover have "get (min_seo_score config) 70 \<le> overall_score (check_quality rt config a)"
    if "get (min_seo_score config) 70 = of_int k / 10" for k :: int
    using le that by (simp add: round1_tenths)
  moreover have "\<forall>i \<in> set (issues (check_quality rt config a)). severity i \<noteq> High"
    using none by (simp add: filter_empty_conv)
  ultimately show "round1 (get (min_seo_score config) 70) \<le> overall_score (check_quality rt config a) \<and>
     (\<forall>k::int. get (min_seo_score config) 70 = of_int k / 10
        \<longrightarrow> get (min_seo_score config) 70 \<le> overall_score (check_quality rt config a)) \<and>
     (\<forall>i \<in> set (issues (check_quality rt config a)). severity i \<noteq> High)"
    by blast
qed

theorem quality_gate_pass_invariant_witness:
  "passed (check_quality ascii_runtime (lenient_config\<lparr>min_seo_score := Some 26\<rparr>) stub_article) \<and>
   get (min_seo_score (lenient_config\<lparr>min_seo_score := Some 26\<rparr>)) 70 = of_int 260 / 10 \<and>
   get (min_seo_score (lenient_config\<lparr>min_seo_score := Some 26\<rparr>)) 70
     \<le> overall_score (check_quality ascii_runtime (lenient_config\<lparr>min_seo_score := Some 26\<rparr>) stub_article) \<and>
   list_all (\<lambda>i. severity i \<noteq> High)
     (issues (check_quality ascii_runtime (lenient_config\<lparr>min_seo_score := Some 26\<rparr>) stub_article))"
proof -
  let ?config = "lenient_config\<lparr>min_seo_score := Some 26\<rparr>"
  have basic: "check_basic_quality ?config stub_article
      = check_basic_quality lenient_config stub_article"
    by (simp add: check_basic_quality_def lenient_config_def)
  have pass: "passed (check_quality ascii_runtime ?config stub_article)"
    unfolding check_quality_def Let_def basic stub_basic stub_seo stub_structure stub_readability
    by (simp add: lenient_config_def get_def)
  have tenths: "get (min_seo_score ?config) 70 = of_int 260 / 10"
    by (simp add: get_def)
  from quality_gate_pass_invariant [of ascii_runtime ?config stub_article] pass tenths
  show ?thesis by (auto simp: list_all_iff)
qed

text \<open>
  The invariant as the specification states it, with the configured minimum itself, fails
  for a minimum that is not a multiple of one tenth: with the minimum 26.25 the stub
  scores 105 of 400 points, which is 26.25, passes, and is reported with the overall score
  26.2.
\<close>

theorem quality_gate_rounding_counterexample:
  "passed (check_quality ascii_runtime lenient_config stub_article) \<and>
   get (min_seo_score lenient_config) 70 = 105 / 4 \<and>
   overall_score (check_quality ascii_runtime lenient_config stub_article) = 131 / 5 \<and>
   overall_score (check_quality ascii_runtime lenient_config stub_article)
     < get (min_seo_score lenient_config) 70"
proof -
  have "\<lfloor>525 / 2 :: rat\<rfloor> = 262"
    by (rule floor_unique) simp_all
  then have "round1 (105 / 4) = 131 / 5"
    by (simp add: round1_def round_half_even_def)
  then show ?thesis
    unfolding check_quality_def Let_def stub_basic stub_seo stub_structure stub_readability
    by (simp add: lenient_config_def get_def)
qed

text \<open>
  C8, as the code has it. For an article with a keyword and with content of at least one
  word, the keyword density is the number of occurrences of the lowered keyword in the
  lowered content, divided by the number of words of the content, times 100. Compared with
  the same article without content, the SEO score is 25 higher for a density from 1 to 3,
  15 higher for a density from 0.5 to below 1 (with an issue of low severity), and no
  higher otherwise; a density above 3 adds an issue of medium severity. The only issue of
  high severity this sub-scorer raises is the one for a keyword missing in the title.
\<close>

theorem keyword_density_scoring:
  assumes "article_error_message a \<noteq> []" and "content a \<noteq> []"
    and "str_split rt (content a) \<noteq> []"
  shows "let d = of_nat (str_count (str_lower rt (content a)) (str_lower rt (article_error_message a)))
                   / of_nat (length (str_split rt (content a))) * 100
     in score (check_seo_quality rt a)
          = score (check_seo_quality rt (a\<lparr>content := []\<rparr>))
            + (if 1 \<le> d \<and> d \<le> 3 then 25 else if 1 / 2 \<le> d \<and> d < 1 then 15 else 0) \<and>
        (1 / 2 \<le> d \<and> d < 1 \<longrightarrow>
           \<lparr>message = KeywordDensityTooLow d, severity = Low\<rparr>
             \<in> set (check_issues (check_seo_quality rt a))) \<and>
        (3 < d \<longrightarrow>
           \<lparr>message = KeywordDensityTooHigh d, severity = Medium\<rparr>
             \<in> set (check_issues (check_seo_quality rt a))) \<and>
        (\<forall>i \<in> set (check_issues (check_seo_quality rt a)).
           severity i = High \<longrightarrow> message i = KeywordNotInTitle)"
proof -
  define d :: rat where "d = of_nat (str_count (str_lower rt (content a))
      (str_lower rt (article_error_message a))) / of_nat (length (str_split rt (content a))) * 100"
  define points :: int
    where "points = (if 1 \<le> d \<and> d \<le> 3 then 25 else if 1 / 2 \<le> d \<and> d < 1 then 15 else 0)"
  define density_issues where "density_issues =
    (if 1 \<le> d \<and> d \<le> 3 then []
     else if 1 / 2 \<le> d \<and> d < 1 then [\<lparr>message = KeywordDensityTooLow d, severity = Low\<rparr>]
     else if 3 < d then [\<lparr>message = KeywordDensityTooHigh d, severity = Medium\<rparr>]
     else [\<lparr>message = KeywordScarce, severity = Medium\<rparr>])"
  obtain hs hi where head: "keyword_excerpt_check rt a (keyword_title_check rt a (0, [])) = (hs, hi)"
    by (cases "keyword_excerpt_check rt a (keyword_title_check rt a (0, []))")
  obtain ts ti where tail: "image_alt_check a (tags_check a (slug_check a (0, []))) = (ts, ti)"
    by (cases "image_alt_check a (tags_check a (slug_check a (0, [])))")
  have dens: "keyword_density_check rt a (hs, hi) = (hs + points, hi @ density_issues)"
    using density_step [OF assms(2,3), of hs hi, unfolded Let_def, folded d_def]
    by (simp add: points_def density_issues_def)
  have full: "image_alt_check a (tags_check a (slug_check a (hs + points, hi @ density_issues)))
      = (hs + points + ts, (hi @ density_issues) @ ti)"
    using seo_tail_additive [of a "hs + points" "hi @ density_issues"] by (simp add: tail)
  have score_a: "score (check_seo_quality rt a) = hs + points + ts"
    and issues_a: "check_issues (check_seo_quality rt a) = (hi @ density_issues) @ ti"
    using check_seo_quality_keyword [OF assms(1), of rt] by (simp_all add: head dens full)
  let ?b = "a\<lparr>content := []\<rparr>"
  have "article_error_message ?b \<noteq> []" using assms(1) by simp
  from check_seo_quality_keyword [OF this, of rt]
  have "score (check_seo_quality rt ?b) = fst (image_alt_check a (tags_check a (slug_check a (hs, hi))))"
    by (simp add: density_empty_content seo_head_same seo_tail_same head)
  also have "\<dots> = hs + ts"
    using seo_tail_additive [of a hs hi] by (simp add: tail)
  finally have score_b: "score (check_seo_quality rt ?b) = hs + ts" .
  have high: "message i = KeywordNotInTitle"
    if "i \<in> set ((hi @ density_issues) @ ti)" and "severity i = High" for i
  proof -
    from that(1) consider "i \<in> set hi" | "i \<in> set density_issues" | "i \<in> set ti" by auto
    then show ?thesis
    proof cases
      case 1
      then show ?thesis using seo_head_severity [of i rt a] that(2) by (simp add: head)
    next
      case 2
      then show ?thesis using that(2) by (auto simp: density_issues_def split: if_splits)
    next
      case 3
      then show ?thesis using seo_tail_severity [of i a] that(2) by (simp add: tail)
    qed
  qed
  have low: "\<lparr>message = KeywordDensityTooLow d, severity = Low\<rparr> \<in> set ((hi @ density_issues) @ ti)"
    if "1 / 2 \<le> d \<and> d < 1"
    using that by (simp add: density_issues_def)
  have over: "\<lparr>message = KeywordDensityTooHigh d, severity = Medium\<rparr> \<in> set ((hi @ density_issues) @ ti)"
    if "3 < d"
    using that by (simp add: density_issues_def)
  have "score (check_seo_quality rt a) = score (check_seo_quality rt ?b) + points"
    by (simp add: score_a score_b)
  with high low over show ?thesis
    unfolding Let_def d_def [symmetric] issues_a points_def by blast
qed

theorem keyword_density_scoring_witness:
  "article_error_message dense_article \<noteq> [] \<and> content dense_article \<noteq> [] \<and>
   str_split ascii_runtime (content dense_article) \<noteq> [] \<and>
   \<lparr>message = KeywordDensityTooHigh 40, severity = Medium\<rparr>
     \<in> set (check_issues (check_seo_quality ascii_runtime dense_article)) \<and>
   score (check_seo_quality ascii_runtime dense_article)
     = score (check_seo_quality ascii_runtime (dense_article\<lparr>content := []\<rparr>)) \<and>
   article_error_message balanced_article \<noteq> [] \<and> content balanced_article \<noteq> [] \<and>
   str_split ascii_runtime (content balanced_article) \<noteq> [] \<and>
   score (check_seo_quality ascii_runtime balanced_article)
     = score (check_seo_quality ascii_runtime (balanced_article\<lparr>content := []\<rparr>)) + 25"
proof -
  have d: "article_error_message dense_article \<noteq> []" "content dense_article \<noteq> []"
    "str_split ascii_runtime (content dense_article) \<noteq> []"
    by (simp_all add: dense_article_def ascii_runtime_def u_def str_split_def)
  have b: "article_error_message balanced_article \<noteq> []" "content balanced_article \<noteq> []"
    "str_split ascii_runtime (content balanced_article) \<noteq> []"
    by (simp_all add: balanced_article_def dense_article_def ascii_runtime_def u_def str_split_def)
  from keyword_density_scoring [OF d]
  have "\<lparr>message = KeywordDensityTooHigh 40, severity = Medium\<rparr>
      \<in> set (check_issues (check_seo_quality ascii_runtime dense_article)) \<and>
    score (check_seo_quality ascii_runtime dense_article)
      = score (check_seo_quality ascii_runtime (dense_article\<lparr>content := []\<rparr>))"
    unfolding Let_def dense_density by simp
  moreover from keyword_density_scoring [OF b]
  have "score (check_seo_quality ascii_runtime balanced_article)
      = score (check_seo_quality ascii_runtime (balanced_article\<lparr>content := []\<rparr>)) + 25"
    unfolding Let_def balanced_density by simp
  ultimately show ?thesis using d b by simp
qed

text \<open>
  A density above 3 does not produce an issue of high severity: with the keyword twice in
  five words the density is 40, and the two issues of the sub-scorer are of medium
  severity.
\<close>

theorem keyword_density_counterexample:
  "article_error_message dense_article \<noteq> [] \<and> content dense_article \<noteq> [] \<and>
   of_nat (str_count (str_lower ascii_runtime (content dense_article))
             (str_lower ascii_runtime (article_error_message dense_article)))
     / of_nat (length (str_split ascii_runtime (content dense_article))) * 100 = (40::rat) \<and>
   check_issues (check_seo_quality ascii_runtime dense_article) =
     [\<lparr>message = KeywordNotInExcerpt, severity = Medium\<rparr>,
      \<lparr>message = KeywordDensityTooHigh 40, severity = Medium\<rparr>]"
proof -
  have "check_issues (check_seo_quality ascii_runtime dense_article) =
     [\<lparr>message = KeywordNotInExcerpt, severity = Medium\<rparr>,
      \<lparr>message = KeywordDensityTooHigh 40, severity = Medium\<rparr>]"
    by (simp add: check_seo_quality_def keyword_title_check_def keyword_excerpt_check_def
        keyword_density_check_def slug_check_def tags_check_def image_alt_check_def
        slug_matches_def dense_article_def ascii_runtime_def u_def str_count_def str_split_def
        Let_def)
  moreover have "article_error_message dense_article \<noteq> []" "content dense_article \<noteq> []"
    by (simp_all add: dense_article_def u_def)
  ultimately show ?thesis using dense_density by simp
qed

text \<open>
  C9, as the code has it. For an article of 500 words against the window from 3000 to
  5000, with a title of 15 characters and an empty excerpt, the word count, title and
  excerpt checks fail; the content check awards its 20 points unless the content is empty.
  So the basic sub-score is 20 for an article with content and 0 for one without; the
  issues of the sub-scorer hold the high-severity entry for the insufficient length, and
  the overall report has \<open>passed = false\<close>, whatever the other sub-scores are.
\<close>

theorem short_article_fails:
  assumes "word_count a = 500"
    and "min_word_count config = Some 3000" and "max_word_count config = Some 5000"
    and "length (title a) = 15" and "excerpt a = []"
  shows "score (check_basic_quality config a) = (if content a = [] then 0 else 20) \<and>
    \<lparr>message = WordCountTooLow 500 3000, severity = High\<rparr>
      \<in> set (check_issues (check_basic_quality config a)) \<and>
    \<not> passed (check_quality rt config a)"
proof -
  have ne: "title a \<noteq> []" using assms(4) by auto
  have basic: "score (check_basic_quality config a) = (if content a = [] then 0 else 20)"
    using assms ne by (simp add: check_basic_quality_def get_def)
  have high: "\<lparr>message = WordCountTooLow 500 3000, severity = High\<rparr>
      \<in> set (check_issues (check_basic_quality config a))"
    using assms ne by (simp add: check_basic_quality_def get_def)
  have "\<not> passed (check_quality rt config a)"
  proof
    assume pass: "passed (check_quality rt config a)"
    then have ok: "check_quality rt config a \<noteq> error_report" by (auto simp: error_report_def)
    with check_quality_basic_issues [of rt config a] high
    have "\<lparr>message = WordCountTooLow 500 3000, severity = High\<rparr>
        \<in> set (issues (check_quality rt config a))"
      by auto
    moreover from check_quality_cases [of rt config a] pass ok
    have "length (filter (\<lambda>i. severity i = High) (issues (check_quality rt config a))) = 0"
      by auto
    then have "\<forall>i \<in> set (issues (check_quality rt config a)). severity i \<noteq> High"
      by (simp add: filter_empty_conv)
    ultimately show False by force
  qed
  with basic high show ?thesis by simp
qed

theorem short_article_fails_witness:
  "word_count short_article = 500 \<and>
   min_word_count window_config = Some 3000 \<and> max_word_count window_config = Some 5000 \<and>
   length (title short_article) = 15 \<and> excerpt short_article = [] \<and>
   content short_article \<noteq> [] \<and>
   score (check_basic_quality window_config short_article) = 20 \<and>
   \<lparr>message = WordCountTooLow 500 3000, severity = High\<rparr>
     \<in> set (check_issues (check_basic_quality window_config short_article)) \<and>
   \<not> passed (check_quality ascii_runtime window_config short_article)"
proof -
  have facts: "word_count short_article = 500" "min_word_count window_config = Some 3000"
    "max_word_count window_config = Some 5000" "length (title short_article) = 15"
    "excerpt short_article = []" "content short_article \<noteq> []"
    by (simp_all add: short_article_def window_config_def u_def)
  from short_article_fails [OF facts(1-5), of ascii_runtime] facts show ?thesis by simp
qed

text \<open>
  The sub-score is not 0 for every such article: it is 20 when the article has content.
\<close>

theorem short_article_counterexample:
  "word_count short_article = 500 \<and> length (title short_article) = 15 \<and>
   excerpt short_article = [] \<and>
   min_word_count window_config = Some 3000 \<and> max_word_count window_config = Some 5000 \<and>
   score (check_basic_quality window_config short_article) = 20"
  by (simp add: short_article_def window_config_def check_basic_quality_def get_def u_def)

end
